theory Spec2Isabelle
  imports Main
begin

section \<open>Strings\<close>

text \<open>
  A JavaScript string is modelled as a \<^typ>\<open>string\<close>: a list of code units, each below 256
  (the Latin-1 range). Every pattern the program searches for is ASCII.
\<close>

fun startsWith :: "string \<Rightarrow> string \<Rightarrow> bool" where
  "startsWith s [] = True"
| "startsWith [] (p # ps) = False"
| "startsWith (c # cs) (p # ps) = (c = p \<and> startsWith cs ps)"

fun str_includes :: "string \<Rightarrow> string \<Rightarrow> bool" where
  "str_includes [] p = (p = [])"
| "str_includes (c # cs) p = (startsWith (c # cs) p \<or> str_includes cs p)"

definition lower_char :: "char \<Rightarrow> char" where
  "lower_char c =
     (let n = (of_char c :: nat)
      in if (65 \<le> n \<and> n \<le> 90) \<or> (192 \<le> n \<and> n \<le> 222 \<and> n \<noteq> 215)
         then char_of (n + 32) else c)"

definition toLowerCase :: "string \<Rightarrow> string" where
  "toLowerCase s = map lower_char s"

text \<open>The white space and line terminators that \<open>String.prototype.trim\<close> strips, below 256.\<close>

definition is_js_space :: "char \<Rightarrow> bool" where
  "is_js_space c = (c \<in> set [CHR 0x09, CHR 0x0A, CHR 0x0B, CHR 0x0C, CHR 0x0D, CHR 0x20, CHR 0xA0])"

definition trim :: "string \<Rightarrow> string" where
  "trim s = rev (dropWhile is_js_space (rev (dropWhile is_js_space s)))"

text \<open>\<open>s.replace(/\n+/g, '\n')\<close>: of every maximal run of newlines one newline is kept.\<close>

fun collapse_newlines :: "string \<Rightarrow> string" where
  "collapse_newlines (c # d # cs) =
     (if c = CHR 0x0A \<and> d = CHR 0x0A then collapse_newlines (d # cs)
      else c # collapse_newlines (d # cs))"
| "collapse_newlines cs = cs"

text \<open>\<open>Array.prototype.join\<close>.\<close>

fun join :: "string \<Rightarrow> string list \<Rightarrow> string" where
  "join sep [] = []"
| "join sep [x] = x"
| "join sep (x # y # ys) = x @ sep @ join sep (y # ys)"

text \<open>Decimal rendering of a number inside a template string.\<close>

fun show_nat :: "nat \<Rightarrow> string" where
  "show_nat n =
     (if n < 10 then [char_of (48 + n)] else show_nat (n div 10) @ [char_of (48 + n mod 10)])"

declare show_nat.simps [simp del]

section \<open>The retry-fetch protocol (lib/youtube)\<close>

definition MAX_RETRIES :: nat where
  "MAX_RETRIES = 3"

definition INITIAL_BACKOFF_MS :: nat where
  "INITIAL_BACKOFF_MS = 1000"

text \<open>The error classes of the module, and the plain \<open>Error\<close>, each with its message.\<close>

datatype js_error =
    Error string
  | VideoUnavailableError string
  | RateLimitError string
  | NetworkError string
  | InvalidVideoError string

fun message :: "js_error \<Rightarrow> string" where
  "message (Error m) = m"
| "message (VideoUnavailableError m) = m"
| "message (RateLimitError m) = m"
| "message (NetworkError m) = m"
| "message (InvalidVideoError m) = m"

definition sanitizeTranscriptText :: "string \<Rightarrow> string" where
  "sanitizeTranscriptText transcript =
     (if transcript = [] then [] else trim (collapse_newlines transcript))"

text \<open>
  One call of the external caption source either yields the caption segments (their texts,
  in order) or throws a value whose \<open>message\<close> may be missing.
\<close>

datatype fetch_outcome = Segments "string list" | Throws "string option"

text \<open>
  The caption source is a parameter: what it answers may depend on how many calls were
  made before (the index), on the video and on the language.
\<close>

type_synonym upstream = "nat \<Rightarrow> string \<Rightarrow> string \<Rightarrow> fetch_outcome"

text \<open>
  The world a request runs in: the calls made to the caption source so far, the delays
  waited, and the key-value namespace \<open>env.TRANSCRIPT_CACHE\<close> (bound or not; its entries
  with their time-to-live; the \<open>put\<close>s that went through; the keys on which \<open>get\<close> and
  \<open>put\<close> throw).
\<close>

record world =
  calls :: "(string \<times> string) list"
  sleeps :: "nat list"
  cache_bound :: bool
  kv :: "string \<rightharpoonup> string \<times> nat"
  puts :: "(string \<times> string \<times> nat) list"
  get_throws :: "string \<Rightarrow> bool"
  put_throws :: "string \<Rightarrow> bool"

text \<open>\<open>${error.message}\<close> inside a template string.\<close>

fun message_text :: "string option \<Rightarrow> string" where
  "message_text None = ''undefined''"
| "message_text (Some m) = m"

text \<open>The four tests on the message of a failed attempt, in the order of the source.\<close>

fun is_network_shaped :: "string option \<Rightarrow> bool" where
  "is_network_shaped None = False"
| "is_network_shaped (Some m) =
     (m \<noteq> [] \<and> (str_includes m ''timed out'' \<or> str_includes m ''network''
        \<or> str_includes m ''ECONNRESET''))"

fun is_rate_limit_shaped :: "string option \<Rightarrow> bool" where
  "is_rate_limit_shaped None = False"
| "is_rate_limit_shaped (Some m) =
     (m \<noteq> [] \<and> (str_includes (toLowerCase m) ''too many requests'' \<or> str_includes m ''429''
        \<or> str_includes m ''403''))"

fun is_no_transcript_shaped :: "string option \<Rightarrow> bool" where
  "is_no_transcript_shaped None = False"
| "is_no_transcript_shaped (Some m) =
     (m \<noteq> [] \<and> (str_includes m ''No transcript found for this video''
        \<or> str_includes m ''transcripts are disabled''))"

fun is_invalid_video_shaped :: "string option \<Rightarrow> bool" where
  "is_invalid_video_shaped None = False"
| "is_invalid_video_shaped (Some m) =
     (m \<noteq> [] \<and> (str_includes m ''This video is unavailable''
        \<or> str_includes m ''Video not found or private''
        \<or> str_includes m ''Invalid video ID''))"

text \<open>
  The \<open>while (attempts < MAX_RETRIES)\<close> loop of \<open>getTranscript\<close> in lib/youtube, with its
  two variables \<open>attempts\<close> and \<open>backoff\<close>.
\<close>

function getTranscript_loop ::
  "upstream \<Rightarrow> string \<Rightarrow> string \<Rightarrow> nat \<Rightarrow> nat \<Rightarrow> world \<Rightarrow> (js_error + string) \<times> world" where
  "getTranscript_loop up videoId language attempts backoff w =
     (if attempts < MAX_RETRIES then
        (let w1 = w\<lparr>calls := calls w @ [(videoId, language)]\<rparr> in
         case up (length (calls w)) videoId language of
           Segments items \<Rightarrow> (Inr (sanitizeTranscriptText (join '' '' items)), w1)
         | Throws m \<Rightarrow>
             (let attempts1 = attempts + 1 in
              if is_network_shaped m then
                if attempts1 \<ge> MAX_RETRIES then
                  (Inl (NetworkError (''Network error after '' @ show_nat attempts1
                          @ '' attempts: '' @ message_text m)), w1)
                else getTranscript_loop up videoId language attempts1 (backoff * 2)
                       (w1\<lparr>sleeps := sleeps w1 @ [backoff]\<rparr>)
              else if is_rate_limit_shaped m then
                if attempts1 \<ge> MAX_RETRIES then
                  (Inl (RateLimitError (''Rate limited after '' @ show_nat attempts1
                          @ '' attempts: '' @ message_text m)), w1)
                else getTranscript_loop up videoId language attempts1 (backoff * 2)
                       (w1\<lparr>sleeps := sleeps w1 @ [backoff * (attempts1 + 1)]\<rparr>)
              else if is_no_transcript_shaped m then
                (Inl (VideoUnavailableError (''No transcript found for '' @ videoId @ '' (lang: ''
                        @ language @ ''). Transcripts may be disabled.'')), w1)
              else if is_invalid_video_shaped m then
                (Inl (InvalidVideoError (''Video '' @ videoId @ '' not found or is private.'')), w1)
              else if attempts1 \<ge> MAX_RETRIES then
                (Inl (Error (''Failed to fetch transcript for '' @ videoId @ '' after ''
                        @ show_nat MAX_RETRIES @ '' attempts: '' @ message_text m)), w1)
              else getTranscript_loop up videoId language attempts1 (backoff * 2)
                     (w1\<lparr>sleeps := sleeps w1 @ [backoff]\<rparr>)))
      else (Inl (Error (''Failed to fetch transcript for '' @ videoId @ '' after ''
                  @ show_nat MAX_RETRIES @ '' attempts.'')), w))"
  by pat_completeness auto
termination
  by (relation "measure (\<lambda>(up, videoId, language, attempts, backoff, w). MAX_RETRIES - attempts)")
     (auto simp: MAX_RETRIES_def)

declare getTranscript_loop.simps [simp del]

text \<open>\<open>getTranscript(videoId, language)\<close> of lib/youtube, imported by the tool as
  \<open>fetchTranscriptFromYouTube\<close>.\<close>

definition fetchTranscriptFromYouTube ::
  "upstream \<Rightarrow> string \<Rightarrow> string \<Rightarrow> world \<Rightarrow> (js_error + string) \<times> world" where
  "fetchTranscriptFromYouTube up videoId language w =
     getTranscript_loop up videoId language 0 INITIAL_BACKOFF_MS w"

text \<open>
  The class the loop puts a failed attempt in: the first of the four tests that holds.
\<close>

datatype failure_class =
  NetworkShaped | RateLimitShaped | NoTranscriptShaped | InvalidVideoShaped | OtherShaped

definition classify :: "string option \<Rightarrow> failure_class" where
  "classify m =
     (if is_network_shaped m then NetworkShaped
      else if is_rate_limit_shaped m then RateLimitShaped
      else if is_no_transcript_shaped m then NoTranscriptShaped
      else if is_invalid_video_shaped m then InvalidVideoShaped
      else OtherShaped)"

text \<open>
  \<open>handleYouTubeErrors(error)\<close>; the argument is \<open>None\<close> where the source passes
  \<open>undefined\<close>.
\<close>

fun handleYouTubeErrors :: "js_error option \<Rightarrow> string" where
  "handleYouTubeErrors (Some (VideoUnavailableError m)) = ''No transcript available for this video.''"
| "handleYouTubeErrors (Some (RateLimitError m)) =
     ''Service temporarily busy, try again in a few minutes.''"
| "handleYouTubeErrors (Some (NetworkError m)) = ''Unable to fetch transcript, please try again.''"
| "handleYouTubeErrors (Some (InvalidVideoError m)) = ''Video not found or private.''"
| "handleYouTubeErrors (Some (Error m)) =
     (if m \<noteq> [] \<and> (str_includes m ''not found or private'' \<or> str_includes m ''Invalid video ID'')
      then ''Video not found or private.''
      else if m \<noteq> [] \<and> str_includes m ''transcripts disabled''
      then ''Transcripts are disabled for this video.''
      else if m \<noteq> [] \<and> str_includes m ''No transcript found''
      then ''No transcript available for this video.''
      else ''An unexpected error occurred while fetching the transcript.'')"
| "handleYouTubeErrors None = ''An unexpected error occurred while fetching the transcript.''"

section \<open>The cache layer (utils/cache)\<close>

definition SUCCESSFUL_TRANSCRIPT_TTL_SECONDS :: nat where
  "SUCCESSFUL_TRANSCRIPT_TTL_SECONDS = 60 * 60 * 24 * 7"

definition ERROR_RESPONSE_TTL_SECONDS :: nat where
  "ERROR_RESPONSE_TTL_SECONDS = 60 * 5"

definition getTranscriptCacheKey :: "string \<Rightarrow> string \<Rightarrow> string" where
  "getTranscriptCacheKey videoId language = ''transcript:'' @ videoId @ '':'' @ language"

definition getCachedTranscript :: "world \<Rightarrow> string \<Rightarrow> string \<Rightarrow> string option" where
  "getCachedTranscript w videoId language =
     (if \<not> cache_bound w then None
      else let cacheKey = getTranscriptCacheKey videoId language
           in if get_throws w cacheKey then None else map_option fst (kv w cacheKey))"

definition setCachedTranscript :: "world \<Rightarrow> string \<Rightarrow> string \<Rightarrow> string \<Rightarrow> bool \<Rightarrow> world" where
  "setCachedTranscript w videoId language data isError =
     (if \<not> cache_bound w then w
      else let cacheKey = getTranscriptCacheKey videoId language;
               ttl = (if isError then ERROR_RESPONSE_TTL_SECONDS
                      else SUCCESSFUL_TRANSCRIPT_TTL_SECONDS)
           in if put_throws w cacheKey then w
              else w\<lparr>kv := (kv w)(cacheKey \<mapsto> (data, ttl)),
                     puts := puts w @ [(cacheKey, data, ttl)]\<rparr>)"

section \<open>The resolution strategy (tools/transcript)\<close>

text \<open>
  The calls to the analytics counters (\<open>trackDailyRequests\<close>, \<open>incrementVideoRequestCount\<close>,
  \<open>logAnalyticsError\<close>) are started and not awaited, and write keys that begin with
  \<open>analytics:\<close>; they are not part of the model. Console output is not modelled either.
\<close>

text \<open>The value of a test \<open>if (x)\<close> on a string or \<open>null\<close>: the string when it is truthy.\<close>

fun truthy :: "string option \<Rightarrow> string option" where
  "truthy None = None"
| "truthy (Some d) = (if d = [] then None else Some d)"

text \<open>\<open>cachedData && !cachedData.startsWith('Error:')\<close>: the cached transcript, if it is one.\<close>

definition cached_transcript :: "string option \<Rightarrow> string option" where
  "cached_transcript cachedData =
     (case truthy cachedData of
        None \<Rightarrow> None
      | Some d \<Rightarrow> if startsWith d ''Error:'' then None else Some d)"

text \<open>\<open>cachedData && cachedData.startsWith('Error:')\<close>: the stored error, if it is one.\<close>

definition cached_error :: "string option \<Rightarrow> string option" where
  "cached_error cachedData =
     (case truthy cachedData of
        None \<Rightarrow> None
      | Some d \<Rightarrow> if startsWith d ''Error:'' then Some d else None)"

definition isLanguageRelatedError :: "js_error \<Rightarrow> bool" where
  "isLanguageRelatedError error =
     (if message error = [] then False
      else let m = toLowerCase (message error)
           in str_includes m ''language'' \<or> str_includes m ''subtitle''
              \<or> str_includes m ''caption'' \<or> str_includes m ''transcript''
              \<or> str_includes m ''not available'' \<or> str_includes m ''no transcript found'')"

definition languagesToTry :: "string list" where
  "languagesToTry =
     [''en'', ''es'', ''fr'', ''de'', ''tr'', ''pt'', ''ja'', ''ko'', ''zh'', ''it'', ''ru'', ''ar'']"

text \<open>The code after the loop of \<open>getTranscriptWithAutoDetection\<close>: the error it throws.\<close>

definition autoDetection_failure :: "js_error option \<Rightarrow> string list \<Rightarrow> js_error" where
  "autoDetection_failure lastError availableLanguages =
     Error (if availableLanguages \<noteq> []
            then ''No transcript available in any tested language. Tried: ''
                 @ join '', '' availableLanguages
            else handleYouTubeErrors lastError)"

text \<open>
  The \<open>for (const lang of languagesToTry)\<close> loop, over the candidates still to try, with
  the variables \<open>lastError\<close> and \<open>availableLanguages\<close>. Of the \<open>try\<close> block only the fetch
  can throw; \<open>break\<close> leaves the loop for the code after it.
\<close>

fun autoDetection_loop ::
  "upstream \<Rightarrow> string \<Rightarrow> string list \<Rightarrow> js_error option \<Rightarrow> string list \<Rightarrow> world
     \<Rightarrow> (js_error + string) \<times> world" where
  "autoDetection_loop up videoId [] lastError availableLanguages w =
     (Inl (autoDetection_failure lastError availableLanguages), w)"
| "autoDetection_loop up videoId (lang # rest) lastError availableLanguages w =
     (case cached_transcript (getCachedTranscript w videoId lang) of
        Some cachedData \<Rightarrow> (Inr cachedData, w)
      | None \<Rightarrow>
          (case fetchTranscriptFromYouTube up videoId lang w of
             (Inr transcript, w1) \<Rightarrow>
               (Inr (''[Auto-detected language: '' @ lang @ '']\<newline>\<newline>'' @ transcript),
                if cache_bound w1 then setCachedTranscript w1 videoId lang transcript False else w1)
           | (Inl error, w1) \<Rightarrow>
               if \<not> isLanguageRelatedError error
               then (Inl (autoDetection_failure (Some error) availableLanguages), w1)
               else autoDetection_loop up videoId rest (Some error)
                      (availableLanguages @ [lang @ '': '' @ message error]) w1))"

definition getTranscriptWithAutoDetection ::
  "upstream \<Rightarrow> string \<Rightarrow> world \<Rightarrow> (js_error + string) \<times> world" where
  "getTranscriptWithAutoDetection up videoId w =
     autoDetection_loop up videoId languagesToTry None [] w"

text \<open>The note put before an English transcript shown in place of the requested language.\<close>

definition english_note :: "string \<Rightarrow> string" where
  "english_note requestedLanguage =
     ''[Requested language '' @ [CHR 0x27] @ requestedLanguage @ [CHR 0x27]
     @ '' not available, showing English instead]\<newline>\<newline>''"

text \<open>The outer \<open>try\<close> block of \<open>getTranscriptWithFallback\<close>: what it returns or throws.\<close>

definition fallback_try ::
  "upstream \<Rightarrow> string \<Rightarrow> string \<Rightarrow> world \<Rightarrow> (js_error + string) \<times> world" where
  "fallback_try up videoId requestedLanguage w =
     (case truthy (getCachedTranscript w videoId requestedLanguage) of
        Some cachedData \<Rightarrow>
          if startsWith cachedData ''Error:'' then (Inl (Error cachedData), w)
          else (Inr cachedData, w)
      | None \<Rightarrow>
          (case fetchTranscriptFromYouTube up videoId requestedLanguage w of
             (Inr transcript, w1) \<Rightarrow>
               (Inr transcript,
                if cache_bound w1
                then setCachedTranscript w1 videoId requestedLanguage transcript False else w1)
           | (Inl error, w1) \<Rightarrow> (Inl error, w1)))"

text \<open>The inner \<open>try\<close> block, the English fallback.\<close>

definition english_try ::
  "upstream \<Rightarrow> string \<Rightarrow> string \<Rightarrow> world \<Rightarrow> (js_error + string) \<times> world" where
  "english_try up videoId requestedLanguage w =
     (case cached_transcript (getCachedTranscript w videoId ''en'') of
        Some cachedEnglish \<Rightarrow> (Inr (english_note requestedLanguage @ cachedEnglish), w)
      | None \<Rightarrow>
          (case fetchTranscriptFromYouTube up videoId ''en'' w of
             (Inr englishTranscript, w1) \<Rightarrow>
               (Inr (english_note requestedLanguage @ englishTranscript),
                if cache_bound w1
                then setCachedTranscript w1 videoId ''en'' englishTranscript False else w1)
           | (Inl englishError, w1) \<Rightarrow> (Inl englishError, w1)))"

text \<open>
  \<open>getTranscriptWithFallback\<close>: the outer \<open>try\<close>, and its \<open>catch\<close>, which receives whatever
  the block threw, the \<open>Error\<close> made of a cached error included.
\<close>

definition getTranscriptWithFallback ::
  "upstream \<Rightarrow> string \<Rightarrow> string \<Rightarrow> world \<Rightarrow> (js_error + string) \<times> world" where
  "getTranscriptWithFallback up videoId requestedLanguage w =
     (case fallback_try up videoId requestedLanguage w of
        (Inr result, w1) \<Rightarrow> (Inr result, w1)
      | (Inl error, w1) \<Rightarrow>
          if isLanguageRelatedError error \<and> requestedLanguage \<noteq> ''en'' then
            (case english_try up videoId requestedLanguage w1 of
               (Inr result, w2) \<Rightarrow> (Inr result, w2)
             | (Inl englishError, w2) \<Rightarrow>
                 (Inl (Error (''Transcript not available in '' @ [CHR 0x27] @ requestedLanguage
                         @ [CHR 0x27] @ '' and English fallback failed: ''
                         @ handleYouTubeErrors (Some englishError))),
                  if cache_bound w2
                  then setCachedTranscript w2 videoId requestedLanguage
                         (''Error: '' @ handleYouTubeErrors (Some error)) True
                  else w2))
          else
            (Inl (Error (handleYouTubeErrors (Some error))),
             if cache_bound w1
             then setCachedTranscript w1 videoId requestedLanguage
                    (''Error: '' @ handleYouTubeErrors (Some error)) True
             else w1))"

section \<open>The URL resolver (utils/url-normalize)\<close>

text \<open>
  The parser \<open>new Url(url, true)\<close> belongs to the library url-parse and is a parameter
  here. Of what it returns the program reads the host name, the path and the query
  parameter \<open>v\<close> (absent, a string, or an array of strings); it may throw.
\<close>

datatype query_value = QString string | QArray "string list"

record parsed_url =
  hostname :: string
  pathname :: string
  query_v :: "query_value option"

type_synonym url_parser = "string \<Rightarrow> js_error + parsed_url"

text \<open>\<open>s.split(sep)\<close> for a separator of one character.\<close>

fun split_on :: "char \<Rightarrow> string \<Rightarrow> string list" where
  "split_on sep [] = [[]]"
| "split_on sep (c # cs) =
     (if c = sep then [] # split_on sep cs
      else (case split_on sep cs of
              [] \<Rightarrow> [[c]]
            | x # xs \<Rightarrow> (c # x) # xs))"

text \<open>\<open>parts[i]\<close>: \<open>undefined\<close>, here \<open>None\<close>, out of range.\<close>

fun element_at :: "string list \<Rightarrow> nat \<Rightarrow> string option" where
  "element_at [] i = None"
| "element_at (x # xs) 0 = Some x"
| "element_at (x # xs) (Suc i) = element_at xs i"

text \<open>The test \<open>query.v\<close> (an array is truthy, also when empty).\<close>

fun query_truthy :: "query_value option \<Rightarrow> bool" where
  "query_truthy None = False"
| "query_truthy (Some (QString s)) = (s \<noteq> [])"
| "query_truthy (Some (QArray xs)) = True"

text \<open>\<open>Array.isArray(query.v) ? query.v[0] : query.v\<close>.\<close>

fun query_first :: "query_value option \<Rightarrow> string option" where
  "query_first None = None"
| "query_first (Some (QString s)) = Some s"
| "query_first (Some (QArray xs)) = element_at xs 0"

text \<open>
  \<open>extractVideoIdFromParsedUrl\<close>; \<open>None\<close> stands for \<open>null\<close> and for \<open>undefined\<close>.
\<close>

definition extractVideoIdFromParsedUrl :: "parsed_url \<Rightarrow> string option" where
  "extractVideoIdFromParsedUrl parsedUrl =
     (let path = pathname parsedUrl; query = query_v parsedUrl
      in if hostname parsedUrl = ''youtu.be'' then truthy (element_at (split_on CHR ''/'' path) 1)
         else if startsWith path ''/watch'' \<and> query_truthy query then query_first query
         else if startsWith path ''/live/'' then truthy (element_at (split_on CHR ''/'' path) 2)
         else if startsWith path ''/embed/'' then truthy (element_at (split_on CHR ''/'' path) 2)
         else if startsWith path ''/shorts/'' then truthy (element_at (split_on CHR ''/'' path) 2)
         else if query_truthy query \<and> (path = ''/'' \<or> path = []) then query_first query
         else None)"

definition validHostnames :: "string list" where
  "validHostnames =
     [''youtube.com'', ''www.youtube.com'', ''m.youtube.com'', ''youtu.be'',
      ''youtube.co.uk'', ''youtube.de'', ''youtube.fr'', ''youtube.jp'', ''youtube.ca'',
      ''youtube.es'', ''youtube.br'', ''youtube.com.br'', ''youtube.co.in'', ''youtube.co.kr'']"

text \<open>The host name with a leading \<open>www.\<close> removed, as \<open>isValidYouTubeUrl\<close> computes it.\<close>

definition stripped_hostname :: "parsed_url \<Rightarrow> string" where
  "stripped_hostname parsedUrl =
     (if startsWith (hostname parsedUrl) ''www.'' then drop 4 (hostname parsedUrl)
      else hostname parsedUrl)"

text \<open>\<open>isValidYouTubeUrl\<close> has no \<open>try\<close>: what the parser throws, it throws.\<close>

definition isValidYouTubeUrl :: "url_parser \<Rightarrow> string \<Rightarrow> js_error + bool" where
  "isValidYouTubeUrl parse url =
     (if url = [] then Inr False
      else case parse url of
             Inl e \<Rightarrow> Inl e
           | Inr parsedUrl \<Rightarrow>
               if stripped_hostname parsedUrl \<notin> set validHostnames then Inr False
               else Inr (truthy (extractVideoIdFromParsedUrl parsedUrl) \<noteq> None))"

definition extractVideoId :: "url_parser \<Rightarrow> string \<Rightarrow> string option" where
  "extractVideoId parse url =
     (if url = [] then None
      else case parse url of
             Inl e \<Rightarrow> None
           | Inr parsedUrl \<Rightarrow> extractVideoIdFromParsedUrl parsedUrl)"

definition normalizeYouTubeUrl :: "url_parser \<Rightarrow> string \<Rightarrow> string" where
  "normalizeYouTubeUrl parse url =
     (case truthy (extractVideoId parse url) of
        Some videoId \<Rightarrow> ''https://www.youtube.com/watch?v='' @ videoId
      | None \<Rightarrow> url)"

section \<open>The entry point of the tool\<close>

text \<open>\<open>getTranscript(url, env, language)\<close> of tools/transcript.\<close>

definition getTranscript ::
  "url_parser \<Rightarrow> upstream \<Rightarrow> string \<Rightarrow> string \<Rightarrow> world \<Rightarrow> (js_error + string) \<times> world" where
  "getTranscript parse up url language w =
     (case isValidYouTubeUrl parse url of
        Inl e \<Rightarrow> (Inl e, w)
      | Inr valid \<Rightarrow>
          if \<not> valid then (Inl (Error ''Invalid YouTube URL provided.''), w)
          else (case truthy (extractVideoId parse (normalizeYouTubeUrl parse url)) of
                  None \<Rightarrow> (Inl (Error ''Could not extract video ID from the URL.''), w)
                | Some videoId \<Rightarrow>
                    if language = ''auto'' then getTranscriptWithAutoDetection up videoId w
                    else getTranscriptWithFallback up videoId language w))"

section \<open>Frame conditions\<close>

text \<open>
  \<open>cache_step K w w'\<close>: from \<open>w\<close> to \<open>w'\<close> the cache was written under keys of \<open>K\<close> only
  (what was put is appended to the log, entries under other keys are as before), and the
  namespace itself is the same.
\<close>

definition cache_step :: "string set \<Rightarrow> world \<Rightarrow> world \<Rightarrow> bool" where
  "cache_step K w w' \<longleftrightarrow>
     (\<exists>new. puts w' = puts w @ new \<and> fst ` set new \<subseteq> K)
     \<and> (\<forall>k. k \<notin> K \<longrightarrow> kv w' k = kv w k)
     \<and> cache_bound w' = cache_bound w
     \<and> get_throws w' = get_throws w
     \<and> put_throws w' = put_throws w"


section \<open>The wording of the specification\<close>

text \<open>
  ``All runs of newline characters collapsed to one'', said without the program's regular
  expression: a character is kept unless it is a newline that follows a newline.
\<close>

definition collapse_runs_spec :: "string \<Rightarrow> string" where
  "collapse_runs_spec s =
     map snd (filter (\<lambda>(prev, c). \<not> (prev = Some (CHR 0x0A) \<and> c = CHR 0x0A))
                (zip (None # map Some s) s))"

section \<open>Concrete worlds, caption sources and URLs\<close>

text \<open>A bound, empty, working cache, and no call made yet.\<close>

definition world0 :: world where
  "world0 = \<lparr>calls = [], sleeps = [], cache_bound = True, kv = Map.empty, puts = [],
              get_throws = (\<lambda>k. False), put_throws = (\<lambda>k. False)\<rparr>"

text \<open>The same, with one entry in the cache.\<close>

definition world_with :: "string \<Rightarrow> string \<Rightarrow> string \<Rightarrow> nat \<Rightarrow> world" where
  "world_with videoId language data ttl =
     world0\<lparr>kv := [getTranscriptCacheKey videoId language \<mapsto> (data, ttl)]\<rparr>"

definition up_hello :: upstream where
  "up_hello n videoId language = Segments [''hello'']"

definition up_lines :: upstream where
  "up_lines n videoId language = Segments [''a\<newline>\<newline>'', ''b '']"

definition up_timeout_then_lines :: upstream where
  "up_timeout_then_lines n videoId language =
     (if n = 0 then Throws (Some ''timed out'') else Segments [''a\<newline>\<newline>'', ''b ''])"


definition up_timeout :: upstream where
  "up_timeout n videoId language = Throws (Some ''timed out'')"

definition up_429 :: upstream where
  "up_429 n videoId language = Throws (Some ''429'')"

definition up_429_network :: upstream where
  "up_429_network n videoId language = Throws (Some ''429 network'')"

definition up_disabled :: upstream where
  "up_disabled n videoId language = Throws (Some ''transcripts are disabled'')"

definition up_invalid_id :: upstream where
  "up_invalid_id n videoId language = Throws (Some ''Invalid video ID'')"

definition up_only_english :: upstream where
  "up_only_english n videoId language =
     (if language = ''en'' then Segments [''hello'']
      else Throws (Some ''No transcript found for this video''))"

definition up_english_missing_then_timeout :: upstream where
  "up_english_missing_then_timeout n videoId language =
     (if language = ''en'' then Throws (Some ''No transcript found for this video'')
      else Throws (Some ''timed out''))"

definition up_turkish_missing_then_timeout :: upstream where
  "up_turkish_missing_then_timeout n videoId language =
     (if language = ''en'' then Segments [''hello'']
      else if n = 0 then Throws (Some ''No transcript found for this video'')
      else Throws (Some ''timed out''))"

text \<open>The worlds that one and two requests for Turkish leave, from the empty cache.\<close>

definition after_first :: world where
  "after_first =
     snd (getTranscriptWithFallback up_turkish_missing_then_timeout ''abc'' ''tr'' world0)"

definition after_second :: world where
  "after_second =
     snd (getTranscriptWithFallback up_turkish_missing_then_timeout ''abc'' ''tr'' after_first)"

text \<open>What url-parse returns on two URLs; no other URL is used below.\<close>

definition demo_parser :: url_parser where
  "demo_parser url =
     (if url = ''https://www.youtube.com/watch?v=abc''
      then Inr \<lparr>hostname = ''www.youtube.com'', pathname = ''/watch'',
                query_v = Some (QString ''abc'')\<rparr>
      else if url = ''https://example.com/watch?v=abc''
      then Inr \<lparr>hostname = ''example.com'', pathname = ''/watch'',
                query_v = Some (QString ''abc'')\<rparr>
      else Inl (Error ''not one of the two URLs''))"

section \<open>The retry-fetch protocol: properties\<close>

lemma show_nat_3: "show_nat 3 = ''3''"
  by code_simp

lemma loop_stop: "\<not> a < MAX_RETRIES \<Longrightarrow> snd (getTranscript_loop up v l a b w) = w"
  by (subst getTranscript_loop.simps) simp

text \<open>One turn of the loop either ends it, one call later, or goes to the next attempt.\<close>

lemma loop_unfold:
  assumes "a < MAX_RETRIES" and "getTranscript_loop up v l a b w = res"
  shows "(\<exists>r. res = (r, w\<lparr>calls := calls w @ [(v, l)]\<rparr>)) \<or>
         (Suc a < MAX_RETRIES \<and>
          (\<exists>b' s'. res = getTranscript_loop up v l (Suc a) b'
                           (w\<lparr>calls := calls w @ [(v, l)], sleeps := s'\<rparr>)))"
  using assms
  by (subst (asm) getTranscript_loop.simps)
     (auto simp: Let_def split: fetch_outcome.splits if_splits)

text \<open>
  The loop changes the world only by the calls it makes, all for the same video and
  language and no more than the attempts left, and by the delays it waits.
\<close>

lemma loop_world:
  "\<exists>n s. n \<le> MAX_RETRIES - a \<and> (a < MAX_RETRIES \<longrightarrow> 1 \<le> n) \<and>
     snd (getTranscript_loop up v l a b w) = w\<lparr>calls := calls w @ replicate n (v, l), sleeps := s\<rparr>"
proof (induction "MAX_RETRIES - a" arbitrary: a b w)
  case 0
  then have "\<not> a < MAX_RETRIES" by simp
  then have "snd (getTranscript_loop up v l a b w) = w" by (rule loop_stop)
  then have "snd (getTranscript_loop up v l a b w)
               = w\<lparr>calls := calls w @ replicate 0 (v, l), sleeps := sleeps w\<rparr>" by simp
  moreover have "(0::nat) \<le> MAX_RETRIES - a \<and> (a < MAX_RETRIES \<longrightarrow> 1 \<le> (0::nat))"
    using 0 by simp
  ultimately show ?case by blast
next
  case (Suc k)
  then have lt: "a < MAX_RETRIES" by simp
  from loop_unfold[OF lt refl, of up v l b w]
  show ?case
  proof
    assume "\<exists>r. getTranscript_loop up v l a b w = (r, w\<lparr>calls := calls w @ [(v, l)]\<rparr>)"
    then have "snd (getTranscript_loop up v l a b w)
                 = w\<lparr>calls := calls w @ replicate 1 (v, l), sleeps := sleeps w\<rparr>"
      by auto
    moreover have "(1::nat) \<le> MAX_RETRIES - a \<and> (a < MAX_RETRIES \<longrightarrow> 1 \<le> (1::nat))"
      using lt by simp
    ultimately show ?thesis by blast
  next
    assume "Suc a < MAX_RETRIES \<and>
          (\<exists>b' s'. getTranscript_loop up v l a b w = getTranscript_loop up v l (Suc a) b'
                           (w\<lparr>calls := calls w @ [(v, l)], sleeps := s'\<rparr>))"
    then obtain b' s' where lt': "Suc a < MAX_RETRIES"
      and eq: "getTranscript_loop up v l a b w = getTranscript_loop up v l (Suc a) b'
                           (w\<lparr>calls := calls w @ [(v, l)], sleeps := s'\<rparr>)" by blast
    have k: "k = MAX_RETRIES - Suc a" using Suc.hyps(2) by simp
    from Suc.hyps(1)[OF k, of b' "w\<lparr>calls := calls w @ [(v, l)], sleeps := s'\<rparr>"]
    obtain n s where n: "n \<le> MAX_RETRIES - Suc a"
      and w': "snd (getTranscript_loop up v l (Suc a) b'
                     (w\<lparr>calls := calls w @ [(v, l)], sleeps := s'\<rparr>))
             = w\<lparr>calls := calls w @ [(v, l)], sleeps := s'\<rparr>
                 \<lparr>calls := calls (w\<lparr>calls := calls w @ [(v, l)], sleeps := s'\<rparr>)
                            @ replicate n (v, l), sleeps := s\<rparr>"
      by blast
    have "snd (getTranscript_loop up v l a b w)
            = w\<lparr>calls := calls w @ replicate (Suc n) (v, l), sleeps := s\<rparr>"
      using eq w' by simp
    moreover have "Suc n \<le> MAX_RETRIES - a \<and> (a < MAX_RETRIES \<longrightarrow> 1 \<le> Suc n)"
      using n lt' by simp
    ultimately show ?thesis by blast
  qed
qed

lemma fetch_world:
  "\<exists>n s. 1 \<le> n \<and> n \<le> 3 \<and>
     snd (fetchTranscriptFromYouTube up v l w)
       = w\<lparr>calls := calls w @ replicate n (v, l), sleeps := s\<rparr>"
  using loop_world[of 0 up v l INITIAL_BACKOFF_MS w]
  by (auto simp: fetchTranscriptFromYouTube_def MAX_RETRIES_def)

lemma loop_success:
  assumes "a < MAX_RETRIES" and "up (length (calls w)) v l = Segments items"
  shows "getTranscript_loop up v l a b w =
           (Inr (sanitizeTranscriptText (join '' '' items)), w\<lparr>calls := calls w @ [(v, l)]\<rparr>)"
  using assms by (subst getTranscript_loop.simps) simp

lemma loop_network:
  assumes "up (length (calls w)) v l = Throws m" and "is_network_shaped m"
  shows "Suc a < MAX_RETRIES \<Longrightarrow> getTranscript_loop up v l a b w =
           getTranscript_loop up v l (Suc a) (b * 2)
             (w\<lparr>calls := calls w @ [(v, l)], sleeps := sleeps w @ [b]\<rparr>)"
    and "Suc a = MAX_RETRIES \<Longrightarrow> getTranscript_loop up v l a b w =
           (Inl (NetworkError (''Network error after 3 attempts: '' @ message_text m)),
            w\<lparr>calls := calls w @ [(v, l)]\<rparr>)"
  using assms
  by (subst getTranscript_loop.simps, simp add: MAX_RETRIES_def show_nat_3)+

lemma loop_rate_limit:
  assumes "up (length (calls w)) v l = Throws m" and "\<not> is_network_shaped m"
    and "is_rate_limit_shaped m"
  shows "Suc a < MAX_RETRIES \<Longrightarrow> getTranscript_loop up v l a b w =
           getTranscript_loop up v l (Suc a) (b * 2)
             (w\<lparr>calls := calls w @ [(v, l)], sleeps := sleeps w @ [b * (Suc a + 1)]\<rparr>)"
    and "Suc a = MAX_RETRIES \<Longrightarrow> getTranscript_loop up v l a b w =
           (Inl (RateLimitError (''Rate limited after 3 attempts: '' @ message_text m)),
            w\<lparr>calls := calls w @ [(v, l)]\<rparr>)"
  using assms
  by (subst getTranscript_loop.simps, simp add: MAX_RETRIES_def show_nat_3)+

lemma three_network:
  assumes "up (length (calls w)) v l = Throws m0" "is_network_shaped m0"
    and "up (length (calls w) + 1) v l = Throws m1" "is_network_shaped m1"
    and "up (length (calls w) + 2) v l = Throws m2" "is_network_shaped m2"
  shows "fetchTranscriptFromYouTube up v l w =
           (Inl (NetworkError (''Network error after 3 attempts: '' @ message_text m2)),
            w\<lparr>calls := calls w @ [(v, l), (v, l), (v, l)],
              sleeps := sleeps w @ [1000, 2000]\<rparr>)"
  using assms
  by (simp add: fetchTranscriptFromYouTube_def INITIAL_BACKOFF_MS_def MAX_RETRIES_def
        loop_network(1)[of up _ v l _ 0] loop_network(1)[of up _ v l _ "Suc 0"]
        loop_network(2)[of up _ v l _ "Suc (Suc 0)"])

lemma three_rate_limit:
  assumes "up (length (calls w)) v l = Throws m0" "\<not> is_network_shaped m0"
      "is_rate_limit_shaped m0"
    and "up (length (calls w) + 1) v l = Throws m1" "\<not> is_network_shaped m1"
      "is_rate_limit_shaped m1"
    and "up (length (calls w) + 2) v l = Throws m2" "\<not> is_network_shaped m2"
      "is_rate_limit_shaped m2"
  shows "fetchTranscriptFromYouTube up v l w =
           (Inl (RateLimitError (''Rate limited after 3 attempts: '' @ message_text m2)),
            w\<lparr>calls := calls w @ [(v, l), (v, l), (v, l)],
              sleeps := sleeps w @ [2000, 6000]\<rparr>)"
  using assms
  by (simp add: fetchTranscriptFromYouTube_def INITIAL_BACKOFF_MS_def MAX_RETRIES_def
        loop_rate_limit(1)[of up _ v l _ 0] loop_rate_limit(1)[of up _ v l _ "Suc 0"]
        loop_rate_limit(2)[of up _ v l _ "Suc (Suc 0)"])

lemma classify_timed_out: "is_network_shaped (Some ''timed out'')"
  by code_simp

lemma classify_network: "classify m = NetworkShaped \<longleftrightarrow> is_network_shaped m"
  by (simp add: classify_def)

lemma classify_rate_limit:
  "classify m = RateLimitShaped \<longleftrightarrow> \<not> is_network_shaped m \<and> is_rate_limit_shaped m"
  by (simp add: classify_def)

text \<open>
  C5. When the first call to the caption source fails and the failure is classified as
  ``no transcript / disabled'' or as ``unavailable / private / invalid id'', the fetch fails
  at once, as \<open>VideoUnavailableError\<close> or \<open>InvalidVideoError\<close>: the world it leaves has
  exactly that one call more, and no delay was waited.
\<close>

theorem unavailable_not_retried:
  assumes "up (length (calls w)) videoId language = Throws m"
    and "classify m = NoTranscriptShaped \<or> classify m = InvalidVideoShaped"
  shows "fetchTranscriptFromYouTube up videoId language w =
           (Inl (if classify m = NoTranscriptShaped
                 then VideoUnavailableError (''No transcript found for '' @ videoId @ '' (lang: ''
                        @ language @ ''). Transcripts may be disabled.'')
                 else InvalidVideoError (''Video '' @ videoId @ '' not found or is private.'')),
            w\<lparr>calls := calls w @ [(videoId, language)]\<rparr>)"
  using assms
  by (simp add: fetchTranscriptFromYouTube_def getTranscript_loop.simps[of _ _ _ 0]
        MAX_RETRIES_def classify_def split: if_splits)

theorem unavailable_not_retried_witness:
  "up_disabled (length (calls world0)) ''abc'' ''en'' = Throws (Some ''transcripts are disabled'')
   \<and> classify (Some ''transcripts are disabled'') = NoTranscriptShaped
   \<and> fetchTranscriptFromYouTube up_disabled ''abc'' ''en'' world0 =
       (Inl (VideoUnavailableError
               ''No transcript found for abc (lang: en). Transcripts may be disabled.''),
        world0\<lparr>calls := [(''abc'', ''en'')]\<rparr>)
   \<and> up_invalid_id (length (calls world0)) ''abc'' ''en'' = Throws (Some ''Invalid video ID'')
   \<and> classify (Some ''Invalid video ID'') = InvalidVideoShaped
   \<and> fetchTranscriptFromYouTube up_invalid_id ''abc'' ''en'' world0 =
       (Inl (InvalidVideoError ''Video abc not found or is private.''),
        world0\<lparr>calls := [(''abc'', ''en'')]\<rparr>)"
proof -
  have h: "classify (Some ''transcripts are disabled'') = NoTranscriptShaped"
    by code_simp
  have i: "classify (Some ''Invalid video ID'') = InvalidVideoShaped"
    by code_simp
  have a: "fetchTranscriptFromYouTube up_disabled ''abc'' ''en'' world0 =
       (Inl (VideoUnavailableError
               ''No transcript found for abc (lang: en). Transcripts may be disabled.''),
        world0\<lparr>calls := [(''abc'', ''en'')]\<rparr>)"
    using h unavailable_not_retried[of up_disabled world0 "''abc''" "''en''"
              "Some ''transcripts are disabled''"]
    by (simp add: up_disabled_def world0_def)
  have b: "fetchTranscriptFromYouTube up_invalid_id ''abc'' ''en'' world0 =
       (Inl (InvalidVideoError ''Video abc not found or is private.''),
        world0\<lparr>calls := [(''abc'', ''en'')]\<rparr>)"
    using i unavailable_not_retried[of up_invalid_id world0 "''abc''" "''en''"
              "Some ''Invalid video ID''"]
    by (simp add: up_invalid_id_def world0_def)
  show ?thesis using h i a b by (simp add: up_disabled_def up_invalid_id_def)
qed

text \<open>
  C6, as the claim states it, fails: three failures whose message holds \<open>429\<close> are all
  rate-limit-shaped, yet the fetch ends as \<open>NetworkError\<close> when the message also holds
  \<open>network\<close>, since the test for a network failure is made first.
\<close>

theorem rate_limit_shaped_counterexample:
  "is_rate_limit_shaped (Some ''429 network'')
   \<and> up_429_network 0 ''abc'' ''en'' = Throws (Some ''429 network'')
   \<and> up_429_network 1 ''abc'' ''en'' = Throws (Some ''429 network'')
   \<and> up_429_network 2 ''abc'' ''en'' = Throws (Some ''429 network'')
   \<and> fetchTranscriptFromYouTube up_429_network ''abc'' ''en'' world0 =
       (Inl (NetworkError ''Network error after 3 attempts: 429 network''),
        world0\<lparr>calls := [(''abc'', ''en''), (''abc'', ''en''), (''abc'', ''en'')],
               sleeps := [1000, 2000]\<rparr>)"
proof -
  have r: "is_rate_limit_shaped (Some ''429 network'')" by code_simp
  have n: "is_network_shaped (Some ''429 network'')" by code_simp
  show ?thesis
    using r three_network[of up_429_network world0 "''abc''" "''en''", OF _ n _ n _ n]
    by (simp add: up_429_network_def world0_def)
qed

text \<open>
  C6, amended. Whatever the caption source answers, the fetch calls it at least once and
  at most three times. When the first three calls all fail and each failure is classified
  as network-shaped, the fetch ends after the third as \<open>NetworkError\<close>; when each is
  classified as rate-limit-shaped (its message matches the rate-limit patterns and not the
  network ones), it ends after the third as \<open>RateLimitError\<close>.
\<close>

theorem retries_bounded:
  "(\<exists>n s. 1 \<le> n \<and> n \<le> 3 \<and>
       snd (fetchTranscriptFromYouTube up videoId language w)
         = w\<lparr>calls := calls w @ replicate n (videoId, language), sleeps := s\<rparr>)
   \<and> ((\<forall>i<3. \<exists>m. up (length (calls w) + i) videoId language = Throws m
                 \<and> classify m = NetworkShaped)
        \<longrightarrow> (\<exists>m. up (length (calls w) + 2) videoId language = Throws m
              \<and> fetchTranscriptFromYouTube up videoId language w =
                  (Inl (NetworkError (''Network error after 3 attempts: '' @ message_text m)),
                   w\<lparr>calls := calls w @ replicate 3 (videoId, language),
                     sleeps := sleeps w @ [1000, 2000]\<rparr>)))
   \<and> ((\<forall>i<3. \<exists>m. up (length (calls w) + i) videoId language = Throws m
                 \<and> classify m = RateLimitShaped)
        \<longrightarrow> (\<exists>m. up (length (calls w) + 2) videoId language = Throws m
              \<and> fetchTranscriptFromYouTube up videoId language w =
                  (Inl (RateLimitError (''Rate limited after 3 attempts: '' @ message_text m)),
                   w\<lparr>calls := calls w @ replicate 3 (videoId, language),
                     sleeps := sleeps w @ [2000, 6000]\<rparr>)))"
proof (intro conjI impI)
  show "\<exists>n s. 1 \<le> n \<and> n \<le> 3 \<and>
       snd (fetchTranscriptFromYouTube up videoId language w)
         = w\<lparr>calls := calls w @ replicate n (videoId, language), sleeps := s\<rparr>"
    by (rule fetch_world)
next
  assume a: "\<forall>i<3. \<exists>m. up (length (calls w) + i) videoId language = Throws m
                 \<and> classify m = NetworkShaped"
  from a[rule_format, of 0] obtain m0
    where m0: "up (length (calls w)) videoId language = Throws m0" "is_network_shaped m0"
    by (auto simp: classify_network)
  from a[rule_format, of 1] obtain m1
    where m1: "up (length (calls w) + 1) videoId language = Throws m1" "is_network_shaped m1"
    by (auto simp: classify_network)
  from a[rule_format, of 2] obtain m2
    where m2: "up (length (calls w) + 2) videoId language = Throws m2" "is_network_shaped m2"
    by (auto simp: classify_network)
  have r3: "replicate 3 (videoId, language)
              = [(videoId, language), (videoId, language), (videoId, language)]"
    by (simp add: numeral_3_eq_3)
  show "\<exists>m. up (length (calls w) + 2) videoId language = Throws m
          \<and> fetchTranscriptFromYouTube up videoId language w =
              (Inl (NetworkError (''Network error after 3 attempts: '' @ message_text m)),
               w\<lparr>calls := calls w @ replicate 3 (videoId, language),
                 sleeps := sleeps w @ [1000, 2000]\<rparr>)"
    using three_network[of up w videoId language, OF m0 m1 m2] m2(1) by (simp add: r3)
next
  assume a: "\<forall>i<3. \<exists>m. up (length (calls w) + i) videoId language = Throws m
                 \<and> classify m = RateLimitShaped"
  from a[rule_format, of 0] obtain m0
    where m0: "up (length (calls w)) videoId language = Throws m0"
      "\<not> is_network_shaped m0" "is_rate_limit_shaped m0"
    by (auto simp: classify_rate_limit)
  from a[rule_format, of 1] obtain m1
    where m1: "up (length (calls w) + 1) videoId language = Throws m1"
      "\<not> is_network_shaped m1" "is_rate_limit_shaped m1"
    by (auto simp: classify_rate_limit)
  from a[rule_format, of 2] obtain m2
    where m2: "up (length (calls w) + 2) videoId language = Throws m2"
      "\<not> is_network_shaped m2" "is_rate_limit_shaped m2"
    by (auto simp: classify_rate_limit)
  have r3: "replicate 3 (videoId, language)
              = [(videoId, language), (videoId, language), (videoId, language)]"
    by (simp add: numeral_3_eq_3)
  show "\<exists>m. up (length (calls w) + 2) videoId language = Throws m
          \<and> fetchTranscriptFromYouTube up videoId language w =
              (Inl (RateLimitError (''Rate limited after 3 attempts: '' @ message_text m)),
               w\<lparr>calls := calls w @ replicate 3 (videoId, language),
                 sleeps := sleeps w @ [2000, 6000]\<rparr>)"
    using three_rate_limit[of up w videoId language, OF m0 m1 m2] m2(1) by (simp add: r3)
qed

theorem retries_bounded_witness:
  "up_timeout (length (calls world0) + 0) ''abc'' ''en'' = Throws (Some ''timed out'')
   \<and> up_timeout (length (calls world0) + 1) ''abc'' ''en'' = Throws (Some ''timed out'')
   \<and> up_timeout (length (calls world0) + 2) ''abc'' ''en'' = Throws (Some ''timed out'')
   \<and> classify (Some ''timed out'') = NetworkShaped
   \<and> fetchTranscriptFromYouTube up_timeout ''abc'' ''en'' world0 =
       (Inl (NetworkError ''Network error after 3 attempts: timed out''),
        world0\<lparr>calls := [(''abc'', ''en''), (''abc'', ''en''), (''abc'', ''en'')],
               sleeps := [1000, 2000]\<rparr>)
   \<and> up_429 (length (calls world0) + 0) ''abc'' ''en'' = Throws (Some ''429'')
   \<and> up_429 (length (calls world0) + 1) ''abc'' ''en'' = Throws (Some ''429'')
   \<and> up_429 (length (calls world0) + 2) ''abc'' ''en'' = Throws (Some ''429'')
   \<and> classify (Some ''429'') = RateLimitShaped
   \<and> fetchTranscriptFromYouTube up_429 ''abc'' ''en'' world0 =
       (Inl (RateLimitError ''Rate limited after 3 attempts: 429''),
        world0\<lparr>calls := [(''abc'', ''en''), (''abc'', ''en''), (''abc'', ''en'')],
               sleeps := [2000, 6000]\<rparr>)"
proof -
  have n: "classify (Some ''timed out'') = NetworkShaped" by code_simp
  have r: "classify (Some ''429'') = RateLimitShaped" by code_simp
  have r3: "replicate 3 (''abc'', ''en'') = [(''abc'', ''en''), (''abc'', ''en''), (''abc'', ''en'')]"
    by (simp add: numeral_3_eq_3)
  have hn: "\<forall>i<3. \<exists>m. up_timeout (length (calls world0) + i) ''abc'' ''en'' = Throws m
             \<and> classify m = NetworkShaped"
    using n by (simp add: up_timeout_def)
  have hr: "\<forall>i<3. \<exists>m. up_429 (length (calls world0) + i) ''abc'' ''en'' = Throws m
             \<and> classify m = RateLimitShaped"
    using r by (simp add: up_429_def)
  have a: "fetchTranscriptFromYouTube up_timeout ''abc'' ''en'' world0 =
       (Inl (NetworkError ''Network error after 3 attempts: timed out''),
        world0\<lparr>calls := [(''abc'', ''en''), (''abc'', ''en''), (''abc'', ''en'')],
               sleeps := [1000, 2000]\<rparr>)"
    using retries_bounded[of up_timeout "''abc''" "''en''" world0] hn
    by (simp add: up_timeout_def world0_def r3)
  have b: "fetchTranscriptFromYouTube up_429 ''abc'' ''en'' world0 =
       (Inl (RateLimitError ''Rate limited after 3 attempts: 429''),
        world0\<lparr>calls := [(''abc'', ''en''), (''abc'', ''en''), (''abc'', ''en'')],
               sleeps := [2000, 6000]\<rparr>)"
    using retries_bounded[of up_429 "''abc''" "''en''" world0] hr
    by (simp add: up_429_def world0_def r3)
  show ?thesis using n r a b by (simp add: up_timeout_def up_429_def)
qed

section \<open>Sanitizing\<close>

lemma collapse_newlines_Cons:
  "collapse_newlines (c # cs) =
     c # map snd (filter (\<lambda>(prev, c). \<not> (prev = Some (CHR 0x0A) \<and> c = CHR 0x0A))
                   (zip (Some c # map Some cs) cs))"
  by (induction cs arbitrary: c) auto

lemma collapse_newlines_spec: "collapse_newlines s = collapse_runs_spec s"
  by (cases s) (simp_all add: collapse_runs_spec_def collapse_newlines_Cons)

lemma trim_decompose:
  "dropWhile is_js_space s = trim s @ rev (takeWhile is_js_space (rev (dropWhile is_js_space s)))"
  unfolding trim_def by (metis rev_append rev_rev_ident takeWhile_dropWhile_id)

lemma trim_hd: "trim s \<noteq> [] \<Longrightarrow> \<not> is_js_space (hd (trim s))"
proof -
  assume ne: "trim s \<noteq> []"
  let ?xs = "dropWhile is_js_space s"
  have "?xs = trim s @ rev (takeWhile is_js_space (rev ?xs))"
    by (rule trim_decompose)
  with ne have "hd (trim s) = hd ?xs" and "?xs \<noteq> []"
    by (metis hd_append2, metis append_is_Nil_conv)
  then show ?thesis by (simp add: hd_dropWhile)
qed

lemma trim_last: "trim s \<noteq> [] \<Longrightarrow> \<not> is_js_space (last (trim s))"
  unfolding trim_def by (simp add: last_rev hd_dropWhile)

lemma trim_ends:
  "\<exists>pre post. s = pre @ trim s @ post \<and> (\<forall>c\<in>set pre. is_js_space c)
       \<and> (\<forall>c\<in>set post. is_js_space c)"
proof -
  let ?pre = "takeWhile is_js_space s"
  let ?post = "rev (takeWhile is_js_space (rev (dropWhile is_js_space s)))"
  have "s = ?pre @ dropWhile is_js_space s" by simp
  then have "s = ?pre @ trim s @ ?post" using trim_decompose[of s] by simp
  moreover have "\<forall>c\<in>set ?pre. is_js_space c" by (auto dest: set_takeWhileD)
  moreover have "\<forall>c\<in>set ?post. is_js_space c" by (auto dest: set_takeWhileD)
  ultimately show ?thesis by blast
qed

lemma sanitize_spec: "sanitizeTranscriptText t = trim (collapse_runs_spec t)"
  by (cases "t = []")
     (simp_all add: sanitizeTranscriptText_def collapse_newlines_spec collapse_runs_spec_def trim_def)

lemma loop_unfold_outcome:
  assumes "a < MAX_RETRIES" and "getTranscript_loop up v l a b w = res"
  shows "(\<exists>items. up (length (calls w)) v l = Segments items
            \<and> res = (Inr (sanitizeTranscriptText (join '' '' items)),
                      w\<lparr>calls := calls w @ [(v, l)]\<rparr>))
       \<or> (\<exists>m e. up (length (calls w)) v l = Throws m
            \<and> res = (Inl e, w\<lparr>calls := calls w @ [(v, l)]\<rparr>))
       \<or> (\<exists>m b' s'. up (length (calls w)) v l = Throws m \<and> Suc a < MAX_RETRIES
            \<and> res = getTranscript_loop up v l (Suc a) b'
                       (w\<lparr>calls := calls w @ [(v, l)], sleeps := s'\<rparr>))"
  using assms
  by (subst (asm) getTranscript_loop.simps)
     (auto simp: Let_def split: fetch_outcome.splits if_splits)

lemma loop_returns:
  "getTranscript_loop up v l a b w = (Inr t, w') \<Longrightarrow>
   \<exists>n items. n < MAX_RETRIES - a
     \<and> (\<forall>j<n. \<exists>m. up (length (calls w) + j) v l = Throws m)
     \<and> up (length (calls w) + n) v l = Segments items
     \<and> t = sanitizeTranscriptText (join '' '' items)
     \<and> calls w' = calls w @ replicate (Suc n) (v, l)"
proof (induction "MAX_RETRIES - a" arbitrary: a b w)
  case 0
  then have "\<not> a < MAX_RETRIES" by simp
  then have "\<exists>e. getTranscript_loop up v l a b w = (Inl e, w)"
    by (subst getTranscript_loop.simps) simp
  with 0 show ?case by simp
next
  case (Suc k)
  then have lt: "a < MAX_RETRIES" by simp
  let ?w1 = "w\<lparr>calls := calls w @ [(v, l)]\<rparr>"
  from loop_unfold_outcome[OF lt Suc.prems]
  consider (ok) items where "up (length (calls w)) v l = Segments items"
      "(Inr t :: js_error + string, w') = (Inr (sanitizeTranscriptText (join '' '' items)), ?w1)"
    | (err) e where "(Inr t :: js_error + string, w') = (Inl e, ?w1)"
    | (retry) m b' s' where "up (length (calls w)) v l = Throws m" "Suc a < MAX_RETRIES"
      "(Inr t :: js_error + string, w')
         = getTranscript_loop up v l (Suc a) b' (?w1\<lparr>sleeps := s'\<rparr>)"
    by blast
  then show ?case
  proof cases
    case ok
    have "(0::nat) < MAX_RETRIES - a" using lt by simp
    moreover have "\<forall>j<(0::nat). \<exists>m. up (length (calls w) + j) v l = Throws m" by simp
    moreover have "up (length (calls w) + 0) v l = Segments items" using ok(1) by simp
    moreover have "t = sanitizeTranscriptText (join '' '' items)" using ok(2) by simp
    moreover have "calls w' = calls w @ replicate (Suc 0) (v, l)" using ok(2) by auto
    ultimately show ?thesis by blast
  next
    case err
    then show ?thesis by simp
  next
    case retry
    have k: "k = MAX_RETRIES - Suc a" using Suc.hyps(2) by simp
    from Suc.hyps(1)[OF k retry(3)[symmetric]]
    obtain n items where n: "n < MAX_RETRIES - Suc a"
      and before: "\<forall>j<n. \<exists>m. up (length (calls w) + 1 + j) v l = Throws m"
      and last: "up (length (calls w) + 1 + n) v l = Segments items"
      and t: "t = sanitizeTranscriptText (join '' '' items)"
      and c: "calls w' = (calls w @ [(v, l)]) @ replicate (Suc n) (v, l)"
      by auto
    have "Suc n < MAX_RETRIES - a" using n retry(2) by simp
    moreover have "\<forall>j<Suc n. \<exists>m. up (length (calls w) + j) v l = Throws m"
    proof (intro allI impI)
      fix j assume "j < Suc n"
      show "\<exists>m. up (length (calls w) + j) v l = Throws m"
      proof (cases j)
        case 0
        then show ?thesis using retry(1) by simp
      next
        case (Suc j')
        then have "j' < n" using \<open>j < Suc n\<close> by simp
        with before Suc show ?thesis by simp
      qed
    qed
    moreover have "up (length (calls w) + Suc n) v l = Segments items" using last by simp
    moreover have "calls w' = calls w @ replicate (Suc (Suc n)) (v, l)" using c by simp
    ultimately show ?thesis using t by blast
  qed
qed

lemma fetch_returns:
  "fetchTranscriptFromYouTube up v l w = (Inr t, w') \<Longrightarrow>
   \<exists>n items. n < 3
     \<and> (\<forall>j<n. \<exists>m. up (length (calls w) + j) v l = Throws m)
     \<and> up (length (calls w) + n) v l = Segments items
     \<and> t = sanitizeTranscriptText (join '' '' items)
     \<and> calls w' = calls w @ replicate (Suc n) (v, l)"
  using loop_returns[of up v l 0 INITIAL_BACKOFF_MS w t w']
  by (simp add: fetchTranscriptFromYouTube_def MAX_RETRIES_def)

text \<open>
  C7. Whenever the fetch returns a transcript, on the first attempt or after retries, the
  calls before the last one all failed, the last one returned segments, and the transcript
  is their texts joined with single spaces and sanitized; in particular so when the first
  call succeeds. Sanitizing is: collapse every run of newlines to one newline (in the
  wording of the specification), then strip white space from both ends, and only white
  space. The text \<open>a\n\n\nb  \n\<close> becomes \<open>a\nb\<close>.
\<close>

theorem success_joined_and_sanitized:
  "(fetchTranscriptFromYouTube up videoId language w = (Inr result, w') \<longrightarrow>
      (\<exists>n segments. n < 3
         \<and> (\<forall>j<n. \<exists>m. up (length (calls w) + j) videoId language = Throws m)
         \<and> up (length (calls w) + n) videoId language = Segments segments
         \<and> result = trim (collapse_runs_spec (join '' '' segments))
         \<and> calls w' = calls w @ replicate (Suc n) (videoId, language)))
   \<and> (up (length (calls w)) videoId language = Segments items \<longrightarrow>
      fetchTranscriptFromYouTube up videoId language w =
        (Inr (trim (collapse_runs_spec (join '' '' items))),
         w\<lparr>calls := calls w @ [(videoId, language)]\<rparr>))
   \<and> sanitizeTranscriptText t = trim (collapse_runs_spec t)
   \<and> (\<exists>pre post. collapse_runs_spec t = pre @ sanitizeTranscriptText t @ post
         \<and> (\<forall>c\<in>set pre. is_js_space c) \<and> (\<forall>c\<in>set post. is_js_space c))
   \<and> (sanitizeTranscriptText t \<noteq> [] \<longrightarrow>
         \<not> is_js_space (hd (sanitizeTranscriptText t))
         \<and> \<not> is_js_space (last (sanitizeTranscriptText t)))
   \<and> sanitizeTranscriptText ''a\<newline>\<newline>\<newline>b  \<newline>'' = ''a\<newline>b''"
proof (intro conjI impI)
  assume "fetchTranscriptFromYouTube up videoId language w = (Inr result, w')"
  from fetch_returns[OF this]
  show "\<exists>n segments. n < 3
         \<and> (\<forall>j<n. \<exists>m. up (length (calls w) + j) videoId language = Throws m)
         \<and> up (length (calls w) + n) videoId language = Segments segments
         \<and> result = trim (collapse_runs_spec (join '' '' segments))
         \<and> calls w' = calls w @ replicate (Suc n) (videoId, language)"
    by (simp add: sanitize_spec)
next
  assume "up (length (calls w)) videoId language = Segments items"
  then show "fetchTranscriptFromYouTube up videoId language w =
        (Inr (trim (collapse_runs_spec (join '' '' items))),
         w\<lparr>calls := calls w @ [(videoId, language)]\<rparr>)"
    by (simp add: fetchTranscriptFromYouTube_def loop_success MAX_RETRIES_def sanitize_spec)
next
  show "sanitizeTranscriptText t = trim (collapse_runs_spec t)" by (rule sanitize_spec)
next
  show "\<exists>pre post. collapse_runs_spec t = pre @ sanitizeTranscriptText t @ post
         \<and> (\<forall>c\<in>set pre. is_js_space c) \<and> (\<forall>c\<in>set post. is_js_space c)"
    unfolding sanitize_spec by (rule trim_ends)
next
  assume "sanitizeTranscriptText t \<noteq> []"
  then show "\<not> is_js_space (hd (sanitizeTranscriptText t))"
    unfolding sanitize_spec by (rule trim_hd)
next
  assume "sanitizeTranscriptText t \<noteq> []"
  then show "\<not> is_js_space (last (sanitizeTranscriptText t))"
    unfolding sanitize_spec by (rule trim_last)
next
  show "sanitizeTranscriptText ''a\<newline>\<newline>\<newline>b  \<newline>'' = ''a\<newline>b''"
    by (simp add: sanitizeTranscriptText_def trim_def is_js_space_def)
qed

theorem success_joined_and_sanitized_witness:
  "up_lines (length (calls world0)) ''abc'' ''en'' = Segments [''a\<newline>\<newline>'', ''b '']
   \<and> fetchTranscriptFromYouTube up_lines ''abc'' ''en'' world0 =
       (Inr ''a\<newline> b'', world0\<lparr>calls := [(''abc'', ''en'')]\<rparr>)
   \<and> fetchTranscriptFromYouTube up_timeout_then_lines ''abc'' ''en'' world0 =
       (Inr ''a\<newline> b'',
        world0\<lparr>calls := [(''abc'', ''en''), (''abc'', ''en'')], sleeps := [1000]\<rparr>)
   \<and> (\<exists>n segments. n < 3
         \<and> (\<forall>j<n. \<exists>m. up_timeout_then_lines (length (calls world0) + j) ''abc'' ''en''
                          = Throws m)
         \<and> up_timeout_then_lines (length (calls world0) + n) ''abc'' ''en'' = Segments segments
         \<and> ''a\<newline> b'' = trim (collapse_runs_spec (join '' '' segments))
         \<and> calls (world0\<lparr>calls := [(''abc'', ''en''), (''abc'', ''en'')], sleeps := [1000]\<rparr>)
             = calls world0 @ replicate (Suc n) (''abc'', ''en''))
   \<and> sanitizeTranscriptText ''  x '' = ''x''
   \<and> \<not> is_js_space (hd (sanitizeTranscriptText ''  x ''))"
proof -
  let ?w2 = "world0\<lparr>calls := [(''abc'', ''en''), (''abc'', ''en'')], sleeps := [1000]\<rparr>"
  note th = success_joined_and_sanitized[where up = up_lines and w = world0
              and videoId = "''abc''" and language = "''en''"
              and items = "[''a\<newline>\<newline>'', ''b '']" and t = "''  x ''"]
  note th2 = success_joined_and_sanitized[where up = up_timeout_then_lines and w = world0
              and videoId = "''abc''" and language = "''en''"
              and result = "''a\<newline> b''" and w' = ?w2]
  have t: "trim (collapse_runs_spec (join '' '' [''a\<newline>\<newline>'', ''b ''])) = ''a\<newline> b''"
    by (simp add: collapse_runs_spec_def trim_def is_js_space_def)
  have t': "sanitizeTranscriptText (join '' '' [''a\<newline>\<newline>'', ''b '']) = ''a\<newline> b''"
    by (simp add: sanitizeTranscriptText_def trim_def is_js_space_def)
  have x: "sanitizeTranscriptText ''  x '' = ''x''"
    by (simp add: sanitizeTranscriptText_def trim_def is_js_space_def)
  have u: "up_lines (length (calls world0)) ''abc'' ''en'' = Segments [''a\<newline>\<newline>'', ''b '']"
    by (simp add: up_lines_def)
  have first: "fetchTranscriptFromYouTube up_lines ''abc'' ''en'' world0 =
       (Inr ''a\<newline> b'', world0\<lparr>calls := [(''abc'', ''en'')]\<rparr>)"
    using th u t by (simp add: world0_def)
  have step1: "getTranscript_loop up_timeout_then_lines ''abc'' ''en'' 0 INITIAL_BACKOFF_MS world0
      = getTranscript_loop up_timeout_then_lines ''abc'' ''en'' (Suc 0) (INITIAL_BACKOFF_MS * 2)
          (world0\<lparr>calls := calls world0 @ [(''abc'', ''en'')],
                 sleeps := sleeps world0 @ [INITIAL_BACKOFF_MS]\<rparr>)"
    by (rule loop_network(1)[OF _ classify_timed_out])
       (simp_all add: up_timeout_then_lines_def world0_def MAX_RETRIES_def)
  have step2: "getTranscript_loop up_timeout_then_lines ''abc'' ''en'' (Suc 0)
          (INITIAL_BACKOFF_MS * 2)
          (world0\<lparr>calls := calls world0 @ [(''abc'', ''en'')],
                 sleeps := sleeps world0 @ [INITIAL_BACKOFF_MS]\<rparr>)
      = (Inr ''a\<newline> b'', ?w2)"
    using loop_success[of "Suc 0" up_timeout_then_lines
            "world0\<lparr>calls := calls world0 @ [(''abc'', ''en'')],
                    sleeps := sleeps world0 @ [INITIAL_BACKOFF_MS]\<rparr>"
            "''abc''" "''en''" "[''a\<newline>\<newline>'', ''b '']" "INITIAL_BACKOFF_MS * 2"] t'
    by (simp add: up_timeout_then_lines_def world0_def MAX_RETRIES_def INITIAL_BACKOFF_MS_def)
  have second: "fetchTranscriptFromYouTube up_timeout_then_lines ''abc'' ''en'' world0 =
       (Inr ''a\<newline> b'', ?w2)"
    by (simp only: fetchTranscriptFromYouTube_def step1 step2)
  from th2 second
  have ex: "\<exists>n segments. n < 3
         \<and> (\<forall>j<n. \<exists>m. up_timeout_then_lines (length (calls world0) + j) ''abc'' ''en''
                          = Throws m)
         \<and> up_timeout_then_lines (length (calls world0) + n) ''abc'' ''en'' = Segments segments
         \<and> ''a\<newline> b'' = trim (collapse_runs_spec (join '' '' segments))
         \<and> calls ?w2 = calls world0 @ replicate (Suc n) (''abc'', ''en'')"
    by blast
  have "sanitizeTranscriptText ''  x '' \<noteq> [] \<longrightarrow>
          \<not> is_js_space (hd (sanitizeTranscriptText ''  x ''))
          \<and> \<not> is_js_space (last (sanitizeTranscriptText ''  x ''))"
    using th by blast
  then have h: "\<not> is_js_space (hd (sanitizeTranscriptText ''  x ''))" by (simp add: x)
  show ?thesis using u first second ex x h by blast
qed

section \<open>What a request writes to the cache\<close>

lemma key_inj: "getTranscriptCacheKey v L = getTranscriptCacheKey v L' \<longleftrightarrow> L = L'"
  by (simp add: getTranscriptCacheKey_def)

lemma auto_not_candidate: "''auto'' \<notin> set languagesToTry"
  by (simp add: languagesToTry_def)

lemma cache_step_refl: "cache_step K w w"
  by (simp add: cache_step_def)

lemma cache_step_trans:
  assumes "cache_step K w w1" and "cache_step K w1 w2"
  shows "cache_step K w w2"
proof -
  from assms(1) obtain n1 where n1: "puts w1 = puts w @ n1" "fst ` set n1 \<subseteq> K"
    by (auto simp: cache_step_def)
  from assms(2) obtain n2 where n2: "puts w2 = puts w1 @ n2" "fst ` set n2 \<subseteq> K"
    by (auto simp: cache_step_def)
  have "puts w2 = puts w @ (n1 @ n2) \<and> fst ` set (n1 @ n2) \<subseteq> K"
    using n1 n2 by auto
  then have "\<exists>new. puts w2 = puts w @ new \<and> fst ` set new \<subseteq> K" by blast
  then show ?thesis using assms by (simp add: cache_step_def)
qed

lemma cache_step_mono: "cache_step K w w' \<Longrightarrow> K \<subseteq> K' \<Longrightarrow> cache_step K' w w'"
  unfolding cache_step_def by blast

lemma fetch_cache_step: "cache_step K w (snd (fetchTranscriptFromYouTube up v l w))"
proof -
  from fetch_world[of up v l w] obtain n s
    where "snd (fetchTranscriptFromYouTube up v l w)
             = w\<lparr>calls := calls w @ replicate n (v, l), sleeps := s\<rparr>" by blast
  then show ?thesis by (simp add: cache_step_def)
qed

lemma set_cache_step:
  "getTranscriptCacheKey v L \<in> K \<Longrightarrow>
   cache_step K w (if cache_bound w then setCachedTranscript w v L d e else w)"
  by (simp add: setCachedTranscript_def cache_step_def Let_def)

lemma autoDetection_cache_step:
  "cache_step (getTranscriptCacheKey v ` set langs) w
     (snd (autoDetection_loop up v langs le av w))"
proof (induction langs arbitrary: le av w)
  case Nil
  show ?case by (simp add: cache_step_refl)
next
  case (Cons lang rest)
  let ?K = "getTranscriptCacheKey v ` set (lang # rest)"
  show ?case
  proof (cases "cached_transcript (getCachedTranscript w v lang)")
    case (Some d)
    then show ?thesis by (simp add: cache_step_refl)
  next
    case None
    obtain r w1 where f: "fetchTranscriptFromYouTube up v lang w = (r, w1)"
      by (cases "fetchTranscriptFromYouTube up v lang w")
    have s1: "cache_step ?K w w1"
      using fetch_cache_step[of ?K w up v lang] f by simp
    show ?thesis
    proof (cases r)
      case (Inr transcript)
      have "cache_step ?K w1
              (if cache_bound w1 then setCachedTranscript w1 v lang transcript False else w1)"
        by (rule set_cache_step) simp
      with s1 have "cache_step ?K w
              (if cache_bound w1 then setCachedTranscript w1 v lang transcript False else w1)"
        by (rule cache_step_trans)
      then show ?thesis using None f Inr by simp
    next
      case (Inl error)
      show ?thesis
      proof (cases "isLanguageRelatedError error")
        case False
        then show ?thesis using None f Inl s1 by simp
      next
        case True
        have "cache_step ?K w1
                (snd (autoDetection_loop up v rest (Some error)
                        (av @ [lang @ '': '' @ message error]) w1))"
          by (rule cache_step_mono[OF Cons.IH]) auto
        with s1 have "cache_step ?K w
                (snd (autoDetection_loop up v rest (Some error)
                        (av @ [lang @ '': '' @ message error]) w1))"
          by (rule cache_step_trans)
        then show ?thesis using None f Inl True by simp
      qed
    qed
  qed
qed

lemma fallback_try_cache_step:
  "getTranscriptCacheKey v L \<in> K \<Longrightarrow> cache_step K w (snd (fallback_try up v L w))"
proof -
  assume k: "getTranscriptCacheKey v L \<in> K"
  obtain r w1 where f: "fetchTranscriptFromYouTube up v L w = (r, w1)"
    by (cases "fetchTranscriptFromYouTube up v L w")
  have s1: "cache_step K w w1"
    using fetch_cache_step[of K w up v L] f by simp
  have s2: "cache_step K w (if cache_bound w1 then setCachedTranscript w1 v L d False else w1)" for d
    using s1 set_cache_step[OF k, of w1 d False] by (rule cache_step_trans)
  show ?thesis
    using f s1 s2
    by (auto simp: fallback_try_def cache_step_refl split: option.splits sum.splits)
qed

lemma english_try_cache_step:
  "getTranscriptCacheKey v ''en'' \<in> K \<Longrightarrow> cache_step K w (snd (english_try up v L w))"
proof -
  assume k: "getTranscriptCacheKey v ''en'' \<in> K"
  obtain r w1 where f: "fetchTranscriptFromYouTube up v ''en'' w = (r, w1)"
    by (cases "fetchTranscriptFromYouTube up v ''en'' w")
  have s1: "cache_step K w w1"
    using fetch_cache_step[of K w up v "''en''"] f by simp
  have s2: "cache_step K w (if cache_bound w1 then setCachedTranscript w1 v ''en'' d False else w1)"
    for d
    using s1 set_cache_step[OF k, of w1 d False] by (rule cache_step_trans)
  show ?thesis
    using f s1 s2
    by (auto simp: english_try_def cache_step_refl split: option.splits sum.splits)
qed

lemma fallback_cache_step:
  "cache_step {getTranscriptCacheKey v L, getTranscriptCacheKey v ''en''} w
     (snd (getTranscriptWithFallback up v L w))"
proof -
  let ?K = "{getTranscriptCacheKey v L, getTranscriptCacheKey v ''en''}"
  obtain r1 w1 where t1: "fallback_try up v L w = (r1, w1)"
    by (cases "fallback_try up v L w")
  have s1: "cache_step ?K w w1"
    using fallback_try_cache_step[of v L ?K w up] t1 by simp
  obtain r2 w2 where t2: "english_try up v L w1 = (r2, w2)"
    by (cases "english_try up v L w1")
  have s2: "cache_step ?K w w2"
    using s1 english_try_cache_step[of v ?K w1 up L] t2 by (auto intro: cache_step_trans)
  have k: "getTranscriptCacheKey v L \<in> ?K" by simp
  have s3: "cache_step ?K w (if cache_bound w1 then setCachedTranscript w1 v L d True else w1)" for d
    using s1 set_cache_step[OF k, of w1 d True] by (rule cache_step_trans)
  have s4: "cache_step ?K w (if cache_bound w2 then setCachedTranscript w2 v L d True else w2)" for d
    using s2 set_cache_step[OF k, of w2 d True] by (rule cache_step_trans)
  show ?thesis
    using t1 t2 s1 s2 s3 s4
    by (auto simp: getTranscriptWithFallback_def split: sum.splits)
qed

lemma fetch_success:
  "up (length (calls w)) v l = Segments items \<Longrightarrow>
   fetchTranscriptFromYouTube up v l w =
     (Inr (sanitizeTranscriptText (join '' '' items)), w\<lparr>calls := calls w @ [(v, l)]\<rparr>)"
  by (simp add: fetchTranscriptFromYouTube_def loop_success MAX_RETRIES_def)

lemma fetch_no_transcript:
  "up (length (calls w)) v l = Throws m \<Longrightarrow> classify m = NoTranscriptShaped \<Longrightarrow>
   fetchTranscriptFromYouTube up v l w =
     (Inl (VideoUnavailableError (''No transcript found for '' @ v @ '' (lang: '' @ l
             @ ''). Transcripts may be disabled.'')),
      w\<lparr>calls := calls w @ [(v, l)]\<rparr>)"
  by (simp add: fetchTranscriptFromYouTube_def getTranscript_loop.simps[of _ _ _ 0]
        MAX_RETRIES_def classify_def split: if_splits)

text \<open>
  C9. Whatever the URL, the language, the caption source and the cache, a request only adds
  to the cache entries whose key is that of the video and of a language other than \<open>auto\<close>:
  a candidate of the auto-detect list, the requested language or \<open>en\<close>. No such key is the
  key of the video under \<open>auto\<close>, and the entry under that key is as it was.
\<close>

theorem never_cached_under_auto:
  "\<exists>new. puts (snd (getTranscript parse up url language w)) = puts w @ new
     \<and> (\<forall>e\<in>set new. \<exists>videoId L.
            truthy (extractVideoId parse (normalizeYouTubeUrl parse url)) = Some videoId
            \<and> fst e = getTranscriptCacheKey videoId L
            \<and> L \<noteq> ''auto''
            \<and> fst e \<noteq> getTranscriptCacheKey videoId ''auto''
            \<and> (L \<in> set languagesToTry \<or> L = language \<or> L = ''en''))
     \<and> (\<forall>videoId. truthy (extractVideoId parse (normalizeYouTubeUrl parse url)) = Some videoId
            \<longrightarrow> kv (snd (getTranscript parse up url language w))
                    (getTranscriptCacheKey videoId ''auto'')
                = kv w (getTranscriptCacheKey videoId ''auto''))"
proof (cases "\<exists>v. isValidYouTubeUrl parse url = Inr True
                \<and> truthy (extractVideoId parse (normalizeYouTubeUrl parse url)) = Some v")
  case False
  then have "snd (getTranscript parse up url language w) = w"
    by (auto simp: getTranscript_def split: sum.splits option.splits)
  then show ?thesis by simp
next
  case True
  then obtain v where valid: "isValidYouTubeUrl parse url = Inr True"
    and v: "truthy (extractVideoId parse (normalizeYouTubeUrl parse url)) = Some v" by blast
  let ?w' = "snd (getTranscript parse up url language w)"
  let ?Ls = "(if language = ''auto'' then set languagesToTry else {language, ''en''})"
  have run: "?w' = snd (if language = ''auto'' then getTranscriptWithAutoDetection up v w
                        else getTranscriptWithFallback up v language w)"
    using valid v by (simp add: getTranscript_def)
  have step: "cache_step (getTranscriptCacheKey v ` ?Ls) w ?w'"
  proof (cases "language = ''auto''")
    case True
    then show ?thesis
      using autoDetection_cache_step[of v languagesToTry w up None "[]"] run
      by (simp add: getTranscriptWithAutoDetection_def)
  next
    case False
    have "getTranscriptCacheKey v ` {language, ''en''}
            = {getTranscriptCacheKey v language, getTranscriptCacheKey v ''en''}" by simp
    then show ?thesis
      using fallback_cache_step[of v language w up] run False by simp
  qed
  have noauto: "''auto'' \<notin> ?Ls" using auto_not_candidate by simp
  from step obtain new where new: "puts ?w' = puts w @ new"
    and keys: "fst ` set new \<subseteq> getTranscriptCacheKey v ` ?Ls"
    by (auto simp: cache_step_def)
  have each: "\<exists>videoId L.
            truthy (extractVideoId parse (normalizeYouTubeUrl parse url)) = Some videoId
            \<and> fst e = getTranscriptCacheKey videoId L
            \<and> L \<noteq> ''auto''
            \<and> fst e \<noteq> getTranscriptCacheKey videoId ''auto''
            \<and> (L \<in> set languagesToTry \<or> L = language \<or> L = ''en'')" if "e \<in> set new" for e
  proof -
    from that keys obtain L where L: "L \<in> ?Ls" "fst e = getTranscriptCacheKey v L" by auto
    with noauto have ne: "L \<noteq> ''auto''" by auto
    then have "fst e \<noteq> getTranscriptCacheKey v ''auto''" using L(2) by (simp add: key_inj)
    moreover have "L \<in> set languagesToTry \<or> L = language \<or> L = ''en''"
      using L(1) by (auto split: if_splits)
    ultimately show ?thesis using v L(2) ne by blast
  qed
  have "getTranscriptCacheKey v ''auto'' \<notin> getTranscriptCacheKey v ` ?Ls"
    using noauto by (auto simp: key_inj)
  with step have "kv ?w' (getTranscriptCacheKey v ''auto'') = kv w (getTranscriptCacheKey v ''auto'')"
    by (simp add: cache_step_def)
  with v have unchanged:
    "\<forall>videoId. truthy (extractVideoId parse (normalizeYouTubeUrl parse url)) = Some videoId
            \<longrightarrow> kv ?w' (getTranscriptCacheKey videoId ''auto'')
                = kv w (getTranscriptCacheKey videoId ''auto'')" by simp
  show ?thesis using new each unchanged by blast
qed


lemma demo_url_valid:
  "isValidYouTubeUrl demo_parser ''https://www.youtube.com/watch?v=abc'' = Inr True"
  by (simp add: isValidYouTubeUrl_def demo_parser_def stripped_hostname_def validHostnames_def
        extractVideoIdFromParsedUrl_def)

lemma demo_url_id:
  "extractVideoId demo_parser ''https://www.youtube.com/watch?v=abc'' = Some ''abc''"
  by (simp add: extractVideoId_def demo_parser_def extractVideoIdFromParsedUrl_def)

lemma demo_url_normal:
  "normalizeYouTubeUrl demo_parser ''https://www.youtube.com/watch?v=abc''
     = ''https://www.youtube.com/watch?v=abc''"
  by (simp add: normalizeYouTubeUrl_def demo_url_id)

lemma sanitize_hello: "sanitizeTranscriptText ''hello'' = ''hello''"
  by (simp add: sanitizeTranscriptText_def trim_def is_js_space_def)

lemma classify_no_transcript:
  "classify (Some ''No transcript found for this video'') = NoTranscriptShaped"
  by code_simp

lemma language_related_tr:
  "isLanguageRelatedError (VideoUnavailableError
     ''No transcript found for abc (lang: tr). Transcripts may be disabled.'')"
  by code_simp

lemma only_english_tr:
  "getTranscriptWithFallback up_only_english ''abc'' ''tr'' world0 =
     (Inr (english_note ''tr'' @ ''hello''),
      world0\<lparr>calls := [(''abc'', ''tr''), (''abc'', ''en'')],
             kv := [getTranscriptCacheKey ''abc'' ''en''
                      \<mapsto> (''hello'', SUCCESSFUL_TRANSCRIPT_TTL_SECONDS)],
             puts := [(getTranscriptCacheKey ''abc'' ''en'', ''hello'',
                       SUCCESSFUL_TRANSCRIPT_TTL_SECONDS)]\<rparr>)"
proof -
  have t: "fallback_try up_only_english ''abc'' ''tr'' world0 =
      (Inl (VideoUnavailableError
              ''No transcript found for abc (lang: tr). Transcripts may be disabled.''),
       world0\<lparr>calls := [(''abc'', ''tr'')]\<rparr>)"
    using fetch_no_transcript[of up_only_english world0 "''abc''" "''tr''", OF _ classify_no_transcript]
    by (simp add: fallback_try_def getCachedTranscript_def world0_def up_only_english_def)
  have e: "english_try up_only_english ''abc'' ''tr'' (world0\<lparr>calls := [(''abc'', ''tr'')]\<rparr>) =
      (Inr (english_note ''tr'' @ ''hello''),
       setCachedTranscript (world0\<lparr>calls := [(''abc'', ''tr''), (''abc'', ''en'')]\<rparr>)
         ''abc'' ''en'' ''hello'' False)"
    using fetch_success[of up_only_english "world0\<lparr>calls := [(''abc'', ''tr'')]\<rparr>" "''abc''"
            "''en''" "[''hello'']"]
    by (simp add: english_try_def getCachedTranscript_def cached_transcript_def world0_def
          up_only_english_def sanitize_hello)
  show ?thesis
    using t e language_related_tr
    by (simp add: getTranscriptWithFallback_def setCachedTranscript_def world0_def Let_def)
qed

theorem never_cached_under_auto_witness:
  "puts (snd (getTranscript demo_parser up_only_english ''https://www.youtube.com/watch?v=abc''
                ''tr'' world0))
     = [(getTranscriptCacheKey ''abc'' ''en'', ''hello'', SUCCESSFUL_TRANSCRIPT_TTL_SECONDS)]
   \<and> getTranscriptCacheKey ''abc'' ''en'' \<noteq> getTranscriptCacheKey ''abc'' ''auto''"
proof -
  let ?url = "''https://www.youtube.com/watch?v=abc''"
  let ?w' = "snd (getTranscript demo_parser up_only_english ?url ''tr'' world0)"
  have id: "truthy (extractVideoId demo_parser (normalizeYouTubeUrl demo_parser ?url)) = Some ''abc''"
    by (simp add: demo_url_normal demo_url_id)
  have run: "puts ?w'
     = [(getTranscriptCacheKey ''abc'' ''en'', ''hello'', SUCCESSFUL_TRANSCRIPT_TTL_SECONDS)]"
    by (simp add: getTranscript_def demo_url_valid id only_english_tr)
  from never_cached_under_auto[of demo_parser up_only_english ?url "''tr''" world0]
  obtain new where new: "puts ?w' = puts world0 @ new"
    and each: "\<forall>e\<in>set new. \<exists>videoId L.
            truthy (extractVideoId demo_parser (normalizeYouTubeUrl demo_parser ?url)) = Some videoId
            \<and> fst e = getTranscriptCacheKey videoId L
            \<and> L \<noteq> ''auto''
            \<and> fst e \<noteq> getTranscriptCacheKey videoId ''auto''
            \<and> (L \<in> set languagesToTry \<or> L = ''tr'' \<or> L = ''en'')"
    by blast
  from new run have "new = [(getTranscriptCacheKey ''abc'' ''en'', ''hello'',
                             SUCCESSFUL_TRANSCRIPT_TTL_SECONDS)]"
    by (simp add: world0_def)
  with each id
  have "getTranscriptCacheKey ''abc'' ''en'' \<noteq> getTranscriptCacheKey ''abc'' ''auto''"
    by auto
  with run show ?thesis by blast
qed

section \<open>The English fallback\<close>

lemma set_calls: "calls (setCachedTranscript w v L d e) = calls w"
  by (simp add: setCachedTranscript_def Let_def)

lemma fetch_calls:
  "\<exists>rest. calls (snd (fetchTranscriptFromYouTube up v l w)) = calls w @ (v, l) # rest"
proof -
  from fetch_world[of up v l w] obtain n s where n: "1 \<le> n"
    and w': "snd (fetchTranscriptFromYouTube up v l w)
               = w\<lparr>calls := calls w @ replicate n (v, l), sleeps := s\<rparr>" by blast
  from n obtain k where "n = Suc k" by (cases n) auto
  with w' have "calls (snd (fetchTranscriptFromYouTube up v l w))
                  = calls w @ (v, l) # replicate k (v, l)" by simp
  then show ?thesis by blast
qed

lemma english_try_calls:
  "\<exists>rest. calls (snd (english_try up v L w)) = calls w @ rest"
proof -
  obtain r w1 where f: "fetchTranscriptFromYouTube up v ''en'' w = (r, w1)"
    by (cases "fetchTranscriptFromYouTube up v ''en'' w")
  from fetch_calls[of up v "''en''" w] f obtain rest where "calls w1 = calls w @ (v, ''en'') # rest"
    by auto
  then show ?thesis
    using f by (auto simp: english_try_def set_calls split: option.splits sum.splits)
qed

lemma fallback_refetch:
  assumes "truthy (getCachedTranscript w v L) = None"
  shows "\<exists>rest. calls (snd (getTranscriptWithFallback up v L w)) = calls w @ (v, L) # rest"
proof -
  obtain r w1 where f: "fetchTranscriptFromYouTube up v L w = (r, w1)"
    by (cases "fetchTranscriptFromYouTube up v L w")
  from fetch_calls[of up v L w] f obtain rest where c1: "calls w1 = calls w @ (v, L) # rest"
    by auto
  obtain r2 w2 where e: "english_try up v L w1 = (r2, w2)"
    by (cases "english_try up v L w1")
  from english_try_calls[of up v L w1] e obtain rest2 where "calls w2 = calls w1 @ rest2"
    by auto
  with c1 have c2: "calls w2 = calls w @ (v, L) # (rest @ rest2)" by simp
  show ?thesis
    using assms f e c1 c2
    by (auto simp: getTranscriptWithFallback_def fallback_try_def set_calls split: sum.splits)
qed

text \<open>
  C10, amended. A request for a language other than English finds no usable cache entry
  for it, the fetch for it fails with a language-related error, English is not in the
  cache and the fetch of English succeeds. Then the request returns the English transcript
  with its note, the only entry it puts in the cache is the English transcript under \<open>en\<close>
  (none when the namespace is unbound or the put throws), and the entry of the requested
  language is as before: still no usable entry. In every world with no usable entry for
  that language, this one included, a request for it calls the caption source for that
  language first.
\<close>

theorem fallback_caches_only_english:
  assumes miss: "truthy (getCachedTranscript w videoId requestedLanguage) = None"
    and fails: "fetchTranscriptFromYouTube up videoId requestedLanguage w = (Inl error, w1)"
    and related: "isLanguageRelatedError error"
    and not_en: "requestedLanguage \<noteq> ''en''"
    and en_miss: "cached_transcript (getCachedTranscript w1 videoId ''en'') = None"
    and en_ok: "fetchTranscriptFromYouTube up videoId ''en'' w1 = (Inr englishTranscript, w2)"
  shows "fst (getTranscriptWithFallback up videoId requestedLanguage w)
           = Inr (english_note requestedLanguage @ englishTranscript)
       \<and> puts (snd (getTranscriptWithFallback up videoId requestedLanguage w))
           = puts w @ (if cache_bound w \<and> \<not> put_throws w (getTranscriptCacheKey videoId ''en'')
                       then [(getTranscriptCacheKey videoId ''en'', englishTranscript,
                              SUCCESSFUL_TRANSCRIPT_TTL_SECONDS)]
                       else [])
       \<and> kv (snd (getTranscriptWithFallback up videoId requestedLanguage w))
           = (if cache_bound w \<and> \<not> put_throws w (getTranscriptCacheKey videoId ''en'')
              then (kv w)(getTranscriptCacheKey videoId ''en''
                            \<mapsto> (englishTranscript, SUCCESSFUL_TRANSCRIPT_TTL_SECONDS))
              else kv w)
       \<and> kv (snd (getTranscriptWithFallback up videoId requestedLanguage w))
             (getTranscriptCacheKey videoId requestedLanguage)
           = kv w (getTranscriptCacheKey videoId requestedLanguage)
       \<and> truthy (getCachedTranscript (snd (getTranscriptWithFallback up videoId requestedLanguage w))
                   videoId requestedLanguage) = None
       \<and> (\<forall>up' w'. truthy (getCachedTranscript w' videoId requestedLanguage) = None \<longrightarrow>
             (\<exists>rest. calls (snd (getTranscriptWithFallback up' videoId requestedLanguage w'))
                       = calls w' @ (videoId, requestedLanguage) # rest))"
proof -
  let ?res = "getTranscriptWithFallback up videoId requestedLanguage w"
  let ?w3 = "if cache_bound w2 then setCachedTranscript w2 videoId ''en'' englishTranscript False
             else w2"
  have t: "fallback_try up videoId requestedLanguage w = (Inl error, w1)"
    using miss fails by (simp add: fallback_try_def)
  have e: "english_try up videoId requestedLanguage w1
             = (Inr (english_note requestedLanguage @ englishTranscript), ?w3)"
    using en_miss en_ok by (simp add: english_try_def)
  have res: "?res = (Inr (english_note requestedLanguage @ englishTranscript), ?w3)"
    using t e related not_en by (simp add: getTranscriptWithFallback_def)
  have s1: "cache_step {} w w1"
    using fetch_cache_step[of "{}" w up videoId requestedLanguage] fails by simp
  have s2: "cache_step {} w1 w2"
    using fetch_cache_step[of "{}" w1 up videoId "''en''"] en_ok by simp
  have s: "cache_step {} w w2" using s1 s2 by (rule cache_step_trans)
  have ne: "getTranscriptCacheKey videoId requestedLanguage \<noteq> getTranscriptCacheKey videoId ''en''"
    using not_en by (simp add: key_inj)
  have p: "puts ?w3 = puts w @ (if cache_bound w \<and> \<not> put_throws w (getTranscriptCacheKey videoId ''en'')
                       then [(getTranscriptCacheKey videoId ''en'', englishTranscript,
                              SUCCESSFUL_TRANSCRIPT_TTL_SECONDS)]
                       else [])"
    using s by (auto simp: cache_step_def setCachedTranscript_def Let_def)
  have kall: "kv ?w3
           = (if cache_bound w \<and> \<not> put_throws w (getTranscriptCacheKey videoId ''en'')
              then (kv w)(getTranscriptCacheKey videoId ''en''
                            \<mapsto> (englishTranscript, SUCCESSFUL_TRANSCRIPT_TTL_SECONDS))
              else kv w)"
    using s by (auto simp: cache_step_def setCachedTranscript_def Let_def)
  have k: "kv ?w3 (getTranscriptCacheKey videoId requestedLanguage)
             = kv w (getTranscriptCacheKey videoId requestedLanguage)"
    using s ne by (auto simp: cache_step_def setCachedTranscript_def Let_def)
  have g: "getCachedTranscript ?w3 videoId requestedLanguage
             = getCachedTranscript w videoId requestedLanguage"
    using s k ne by (auto simp: getCachedTranscript_def cache_step_def setCachedTranscript_def Let_def)
  show ?thesis
    using res p kall k g miss fallback_refetch by simp
qed


theorem fallback_caches_only_english_witness:
  "truthy (getCachedTranscript world0 ''abc'' ''tr'') = None
   \<and> fetchTranscriptFromYouTube up_only_english ''abc'' ''tr'' world0 =
       (Inl (VideoUnavailableError
               ''No transcript found for abc (lang: tr). Transcripts may be disabled.''),
        world0\<lparr>calls := [(''abc'', ''tr'')]\<rparr>)
   \<and> isLanguageRelatedError (VideoUnavailableError
         ''No transcript found for abc (lang: tr). Transcripts may be disabled.'')
   \<and> ''tr'' \<noteq> ''en''
   \<and> cached_transcript (getCachedTranscript (world0\<lparr>calls := [(''abc'', ''tr'')]\<rparr>) ''abc'' ''en'')
       = None
   \<and> fetchTranscriptFromYouTube up_only_english ''abc'' ''en''
         (world0\<lparr>calls := [(''abc'', ''tr'')]\<rparr>) =
       (Inr ''hello'', world0\<lparr>calls := [(''abc'', ''tr''), (''abc'', ''en'')]\<rparr>)
   \<and> puts (snd (getTranscriptWithFallback up_only_english ''abc'' ''tr'' world0))
       = [(getTranscriptCacheKey ''abc'' ''en'', ''hello'', SUCCESSFUL_TRANSCRIPT_TTL_SECONDS)]
   \<and> (\<exists>rest. calls (snd (getTranscriptWithFallback up_only_english ''abc'' ''tr''
                           (snd (getTranscriptWithFallback up_only_english ''abc'' ''tr'' world0))))
         = calls (snd (getTranscriptWithFallback up_only_english ''abc'' ''tr'' world0))
           @ (''abc'', ''tr'') # rest)"
proof -
  let ?w1 = "world0\<lparr>calls := [(''abc'', ''tr'')]\<rparr>"
  let ?w2 = "world0\<lparr>calls := [(''abc'', ''tr''), (''abc'', ''en'')]\<rparr>"
  let ?e = "VideoUnavailableError
              ''No transcript found for abc (lang: tr). Transcripts may be disabled.''"
  have h1: "truthy (getCachedTranscript world0 ''abc'' ''tr'') = None"
    by (simp add: getCachedTranscript_def world0_def)
  have h2: "fetchTranscriptFromYouTube up_only_english ''abc'' ''tr'' world0 = (Inl ?e, ?w1)"
    using fetch_no_transcript[of up_only_english world0 "''abc''" "''tr''",
            OF _ classify_no_transcript]
    by (simp add: world0_def up_only_english_def)
  have h3: "isLanguageRelatedError ?e" by (rule language_related_tr)
  have h4: "''tr'' \<noteq> ''en''" by simp
  have h5: "cached_transcript (getCachedTranscript ?w1 ''abc'' ''en'') = None"
    by (simp add: getCachedTranscript_def cached_transcript_def world0_def)
  have h6: "fetchTranscriptFromYouTube up_only_english ''abc'' ''en'' ?w1 = (Inr ''hello'', ?w2)"
    using fetch_success[of up_only_english ?w1 "''abc''" "''en''" "[''hello'']"]
    by (simp add: world0_def up_only_english_def sanitize_hello)
  note th = fallback_caches_only_english[OF h1 h2 h3 h4 h5 h6]
  from th have p: "puts (snd (getTranscriptWithFallback up_only_english ''abc'' ''tr'' world0))
       = [(getTranscriptCacheKey ''abc'' ''en'', ''hello'', SUCCESSFUL_TRANSCRIPT_TTL_SECONDS)]"
    by (simp add: world0_def)
  from th have m: "truthy (getCachedTranscript
        (snd (getTranscriptWithFallback up_only_english ''abc'' ''tr'' world0)) ''abc'' ''tr'') = None"
    by blast
  from th have "\<forall>up' w'. truthy (getCachedTranscript w' ''abc'' ''tr'') = None \<longrightarrow>
             (\<exists>rest. calls (snd (getTranscriptWithFallback up' ''abc'' ''tr'' w'))
                       = calls w' @ (''abc'', ''tr'') # rest)"
    by blast
  with m have r: "\<exists>rest. calls (snd (getTranscriptWithFallback up_only_english ''abc'' ''tr''
                           (snd (getTranscriptWithFallback up_only_english ''abc'' ''tr'' world0))))
         = calls (snd (getTranscriptWithFallback up_only_english ''abc'' ''tr'' world0))
           @ (''abc'', ''tr'') # rest"
    by blast
  show ?thesis using h1 h2 h3 h4 h5 h6 p r by blast
qed

section \<open>Automatic detection\<close>

lemma autoDetection_break:
  assumes "cached_transcript (getCachedTranscript w videoId lang) = None"
    and "fetchTranscriptFromYouTube up videoId lang w = (Inl error, w1)"
    and "\<not> isLanguageRelatedError error"
  shows "autoDetection_loop up videoId (lang # rest) lastError availableLanguages w =
           (Inl (Error (if availableLanguages = [] then handleYouTubeErrors (Some error)
                        else ''No transcript available in any tested language. Tried: ''
                             @ join '', '' availableLanguages)), w1)"
  using assms by (simp add: autoDetection_failure_def)

lemma autoDetection_continue:
  assumes "cached_transcript (getCachedTranscript w videoId lang) = None"
    and "fetchTranscriptFromYouTube up videoId lang w = (Inl error, w1)"
    and "isLanguageRelatedError error"
  shows "autoDetection_loop up videoId (lang # rest) lastError availableLanguages w =
           autoDetection_loop up videoId rest (Some error)
             (availableLanguages @ [lang @ '': '' @ message error]) w1"
  using assms by simp

lemma not_language_related_network:
  "\<not> isLanguageRelatedError (NetworkError ''Network error after 3 attempts: timed out'')"
  by code_simp

lemma language_related_en:
  "isLanguageRelatedError (VideoUnavailableError
     ''No transcript found for abc (lang: en). Transcripts may be disabled.'')"
  by code_simp

text \<open>
  C2. English fails with a language-related error, then Spanish fails three times with a
  time-out, a \<open>NetworkError\<close> that is not language-related. No further candidate is
  tried, but the error raised is the aggregate one that lists the English failure; it is
  neither the \<open>NetworkError\<close> nor the message \<open>handleYouTubeErrors\<close> gives it. The
  branch of the code after the loop that raises that message is taken only when no
  failure was recorded before.
\<close>

theorem earlier_failures_hide_error:
  "fetchTranscriptFromYouTube up_english_missing_then_timeout ''abc'' ''es''
       (world0\<lparr>calls := [(''abc'', ''en'')]\<rparr>) =
     (Inl (NetworkError ''Network error after 3 attempts: timed out''),
      world0\<lparr>calls := [(''abc'', ''en''), (''abc'', ''es''), (''abc'', ''es''), (''abc'', ''es'')],
             sleeps := [1000, 2000]\<rparr>)
   \<and> \<not> isLanguageRelatedError (NetworkError ''Network error after 3 attempts: timed out'')
   \<and> handleYouTubeErrors (Some (NetworkError ''Network error after 3 attempts: timed out''))
       = ''Unable to fetch transcript, please try again.''
   \<and> getTranscriptWithAutoDetection up_english_missing_then_timeout ''abc'' world0 =
     (Inl (Error (''No transcript available in any tested language. Tried: ''
                  @ ''en: No transcript found for abc (lang: en). Transcripts may be disabled.'')),
      world0\<lparr>calls := [(''abc'', ''en''), (''abc'', ''es''), (''abc'', ''es''), (''abc'', ''es'')],
             sleeps := [1000, 2000]\<rparr>)"
proof -
  let ?w1 = "world0\<lparr>calls := [(''abc'', ''en'')]\<rparr>"
  let ?w2 = "world0\<lparr>calls := [(''abc'', ''en''), (''abc'', ''es''), (''abc'', ''es''),
                               (''abc'', ''es'')], sleeps := [1000, 2000]\<rparr>"
  let ?e1 = "VideoUnavailableError
               ''No transcript found for abc (lang: en). Transcripts may be disabled.''"
  let ?e2 = "NetworkError ''Network error after 3 attempts: timed out''"
  have c1: "cached_transcript (getCachedTranscript world0 ''abc'' ''en'') = None"
    by (simp add: getCachedTranscript_def cached_transcript_def world0_def)
  have f1: "fetchTranscriptFromYouTube up_english_missing_then_timeout ''abc'' ''en'' world0
              = (Inl ?e1, ?w1)"
    using fetch_no_transcript[of up_english_missing_then_timeout world0 "''abc''" "''en''",
            OF _ classify_no_transcript]
    by (simp add: world0_def up_english_missing_then_timeout_def)
  have c2: "cached_transcript (getCachedTranscript ?w1 ''abc'' ''es'') = None"
    by (simp add: getCachedTranscript_def cached_transcript_def world0_def)
  have f2: "fetchTranscriptFromYouTube up_english_missing_then_timeout ''abc'' ''es'' ?w1
              = (Inl ?e2, ?w2)"
    using three_network[of up_english_missing_then_timeout ?w1 "''abc''" "''es''",
            OF _ classify_timed_out _ classify_timed_out _ classify_timed_out]
    by (simp add: world0_def up_english_missing_then_timeout_def)
  have run: "getTranscriptWithAutoDetection up_english_missing_then_timeout ''abc'' world0 =
     (Inl (Error (''No transcript available in any tested language. Tried: ''
                  @ ''en: No transcript found for abc (lang: en). Transcripts may be disabled.'')),
      ?w2)"
    unfolding getTranscriptWithAutoDetection_def languagesToTry_def
    by (simp only: autoDetection_continue[OF c1 f1 language_related_en]
                   autoDetection_break[OF c2 f2 not_language_related_network])
       simp
  show ?thesis using f2 not_language_related_network run by simp
qed

section \<open>Later requests\<close>

lemma language_related_stored_network:
  "isLanguageRelatedError (Error ''Error: Unable to fetch transcript, please try again.'')"
  by code_simp

text \<open>
  C10, as the claim states it, fails. The first request for Turkish ends as the claim
  supposes: the fetch for Turkish fails with a language-related error, English is fetched
  and cached. In the second request the fetch for Turkish fails with a time-out, which is
  not language-related, and that error is stored under Turkish. The third request for
  Turkish makes no call to the caption source at all: it finds the stored error, and
  answers with the English transcript from the cache.
\<close>

theorem later_request_without_fetch_counterexample:
  "fetchTranscriptFromYouTube up_turkish_missing_then_timeout ''abc'' ''tr'' world0 =
     (Inl (VideoUnavailableError
             ''No transcript found for abc (lang: tr). Transcripts may be disabled.''),
      world0\<lparr>calls := [(''abc'', ''tr'')]\<rparr>)
   \<and> isLanguageRelatedError (VideoUnavailableError
         ''No transcript found for abc (lang: tr). Transcripts may be disabled.'')
   \<and> fst (getTranscriptWithFallback up_turkish_missing_then_timeout ''abc'' ''tr'' world0)
       = Inr (english_note ''tr'' @ ''hello'')
   \<and> calls after_first = [(''abc'', ''tr''), (''abc'', ''en'')]
   \<and> puts after_first
       = [(getTranscriptCacheKey ''abc'' ''en'', ''hello'', SUCCESSFUL_TRANSCRIPT_TTL_SECONDS)]
   \<and> fst (getTranscriptWithFallback up_turkish_missing_then_timeout ''abc'' ''tr'' after_first)
       = Inl (Error ''Unable to fetch transcript, please try again.'')
   \<and> calls after_second
       = [(''abc'', ''tr''), (''abc'', ''en''), (''abc'', ''tr''), (''abc'', ''tr''),
          (''abc'', ''tr'')]
   \<and> getCachedTranscript after_second ''abc'' ''tr''
       = Some ''Error: Unable to fetch transcript, please try again.''
   \<and> fst (getTranscriptWithFallback up_turkish_missing_then_timeout ''abc'' ''tr'' after_second)
       = Inr (english_note ''tr'' @ ''hello'')
   \<and> calls (snd (getTranscriptWithFallback up_turkish_missing_then_timeout ''abc'' ''tr''
                    after_second))
       = calls after_second"
proof -
  let ?up = up_turkish_missing_then_timeout
  let ?ken = "getTranscriptCacheKey ''abc'' ''en''"
  let ?ktr = "getTranscriptCacheKey ''abc'' ''tr''"
  let ?e1 = "VideoUnavailableError
               ''No transcript found for abc (lang: tr). Transcripts may be disabled.''"
  let ?e2 = "NetworkError ''Network error after 3 attempts: timed out''"
  let ?d = "''Error: Unable to fetch transcript, please try again.''"
  let ?a = "world0\<lparr>calls := [(''abc'', ''tr'')]\<rparr>"
  let ?b = "world0\<lparr>calls := [(''abc'', ''tr''), (''abc'', ''en'')]\<rparr>"
  let ?W1 = "?b\<lparr>kv := [?ken \<mapsto> (''hello'', SUCCESSFUL_TRANSCRIPT_TTL_SECONDS)],
                puts := [(?ken, ''hello'', SUCCESSFUL_TRANSCRIPT_TTL_SECONDS)]\<rparr>"
  let ?c = "?W1\<lparr>calls := [(''abc'', ''tr''), (''abc'', ''en''), (''abc'', ''tr''),
                         (''abc'', ''tr''), (''abc'', ''tr'')], sleeps := [1000, 2000]\<rparr>"
  let ?W2 = "?c\<lparr>kv := [?ken \<mapsto> (''hello'', SUCCESSFUL_TRANSCRIPT_TTL_SECONDS),
                       ?ktr \<mapsto> (?d, ERROR_RESPONSE_TTL_SECONDS)],
                puts := [(?ken, ''hello'', SUCCESSFUL_TRANSCRIPT_TTL_SECONDS),
                         (?ktr, ?d, ERROR_RESPONSE_TTL_SECONDS)]\<rparr>"
  have kne: "?ktr \<noteq> ?ken" by (simp add: key_inj)
  \<comment> \<open>the first request\<close>
  have f1: "fetchTranscriptFromYouTube ?up ''abc'' ''tr'' world0 = (Inl ?e1, ?a)"
    using fetch_no_transcript[of ?up world0 "''abc''" "''tr''", OF _ classify_no_transcript]
    by (simp add: world0_def up_turkish_missing_then_timeout_def)
  have t1: "fallback_try ?up ''abc'' ''tr'' world0 = (Inl ?e1, ?a)"
    using f1 by (simp add: fallback_try_def getCachedTranscript_def world0_def)
  have f1e: "fetchTranscriptFromYouTube ?up ''abc'' ''en'' ?a = (Inr ''hello'', ?b)"
    using fetch_success[of ?up ?a "''abc''" "''en''" "[''hello'']"]
    by (simp add: world0_def up_turkish_missing_then_timeout_def sanitize_hello)
  have e1: "english_try ?up ''abc'' ''tr'' ?a = (Inr (english_note ''tr'' @ ''hello''), ?W1)"
    using f1e
    by (simp add: english_try_def getCachedTranscript_def cached_transcript_def world0_def
          setCachedTranscript_def Let_def)
  have r1: "getTranscriptWithFallback ?up ''abc'' ''tr'' world0
              = (Inr (english_note ''tr'' @ ''hello''), ?W1)"
    using t1 e1 language_related_tr by (simp add: getTranscriptWithFallback_def)
  have w1: "after_first = ?W1" by (simp add: after_first_def r1)
  \<comment> \<open>the second request\<close>
  have g2: "getCachedTranscript ?W1 ''abc'' ''tr'' = None"
    using kne by (simp add: getCachedTranscript_def world0_def)
  have f2: "fetchTranscriptFromYouTube ?up ''abc'' ''tr'' ?W1 = (Inl ?e2, ?c)"
    using three_network[of ?up ?W1 "''abc''" "''tr''",
            OF _ classify_timed_out _ classify_timed_out _ classify_timed_out]
    by (simp add: world0_def up_turkish_missing_then_timeout_def)
  have t2: "fallback_try ?up ''abc'' ''tr'' ?W1 = (Inl ?e2, ?c)"
    unfolding fallback_try_def g2 f2 by simp
  have s2: "setCachedTranscript ?c ''abc'' ''tr'' ?d True = ?W2"
    by (simp add: setCachedTranscript_def Let_def world0_def)
  have r2: "getTranscriptWithFallback ?up ''abc'' ''tr'' ?W1
              = (Inl (Error ''Unable to fetch transcript, please try again.''), ?W2)"
    using t2 not_language_related_network s2
    by (simp add: getTranscriptWithFallback_def world0_def)
  have w2: "after_second = ?W2" by (simp add: after_second_def w1 r2)
  \<comment> \<open>the third request\<close>
  have g3: "getCachedTranscript ?W2 ''abc'' ''tr'' = Some ?d"
    by (simp add: getCachedTranscript_def world0_def)
  have g3e: "getCachedTranscript ?W2 ''abc'' ''en'' = Some ''hello''"
    using kne by (simp add: getCachedTranscript_def world0_def)
  have t3: "fallback_try ?up ''abc'' ''tr'' ?W2 = (Inl (Error ?d), ?W2)"
    unfolding fallback_try_def g3 by simp
  have e3: "english_try ?up ''abc'' ''tr'' ?W2 = (Inr (english_note ''tr'' @ ''hello''), ?W2)"
    unfolding english_try_def g3e by (simp add: cached_transcript_def)
  have r3: "getTranscriptWithFallback ?up ''abc'' ''tr'' ?W2
              = (Inr (english_note ''tr'' @ ''hello''), ?W2)"
    using t3 e3 language_related_stored_network by (simp add: getTranscriptWithFallback_def)
  show ?thesis
    unfolding w2 r3 unfolding w1 r2 r1
    using f1 language_related_tr g3 by simp
qed

section \<open>Valid URLs\<close>

text \<open>
  C4, as the claim states it, fails: on a URL of another host with a \<open>/watch\<close> path and a
  parameter \<open>v\<close>, \<open>extractVideoId\<close> returns the identifier, and \<open>isValidYouTubeUrl\<close>
  returns false.
\<close>

theorem other_host_counterexample:
  "isValidYouTubeUrl demo_parser ''https://example.com/watch?v=abc'' = Inr False
   \<and> extractVideoId demo_parser ''https://example.com/watch?v=abc'' = Some ''abc''"
  by (simp add: isValidYouTubeUrl_def extractVideoId_def demo_parser_def stripped_hostname_def
        validHostnames_def extractVideoIdFromParsedUrl_def)

text \<open>
  C4, amended. \<open>isValidYouTubeUrl\<close> returns true exactly when the URL is not empty, it
  parses, its host name (a leading \<open>www.\<close> removed) is on the allow-list, and
  \<open>extractVideoId\<close> returns a non-empty identifier. So a valid URL always yields an
  identifier; \<open>extractVideoId\<close> itself does not look at the allow-list.
\<close>

theorem valid_iff_allowed_host_and_id:
  "(isValidYouTubeUrl parse url = Inr True \<longleftrightarrow>
      url \<noteq> []
      \<and> (\<exists>parsedUrl. parse url = Inr parsedUrl
            \<and> stripped_hostname parsedUrl \<in> set validHostnames)
      \<and> truthy (extractVideoId parse url) \<noteq> None)
   \<and> (isValidYouTubeUrl parse url = Inr True \<longrightarrow> extractVideoId parse url \<noteq> None)"
proof -
  have iff: "isValidYouTubeUrl parse url = Inr True \<longleftrightarrow>
      url \<noteq> []
      \<and> (\<exists>parsedUrl. parse url = Inr parsedUrl
            \<and> stripped_hostname parsedUrl \<in> set validHostnames)
      \<and> truthy (extractVideoId parse url) \<noteq> None"
    by (cases "parse url") (auto simp: isValidYouTubeUrl_def extractVideoId_def)
  have "truthy (extractVideoId parse url) \<noteq> None \<Longrightarrow> extractVideoId parse url \<noteq> None"
    by (cases "extractVideoId parse url") auto
  with iff show ?thesis by blast
qed

theorem valid_iff_allowed_host_and_id_witness:
  "isValidYouTubeUrl demo_parser ''https://www.youtube.com/watch?v=abc'' = Inr True
   \<and> extractVideoId demo_parser ''https://www.youtube.com/watch?v=abc'' \<noteq> None"
  using valid_iff_allowed_host_and_id[of demo_parser "''https://www.youtube.com/watch?v=abc''"]
    demo_url_valid
  by blast

section \<open>Cache hits\<close>

text \<open>
  C1. With the English transcript \<open>hello\<close> in the cache, automatic detection returns
  \<open>hello\<close> as it is stored, without the note; with an empty cache and the same transcript
  fetched, it returns the transcript after the note \<open>[Auto-detected language: en]\<close>.
\<close>

theorem cached_candidate_returned_unannotated:
  "cached_transcript (getCachedTranscript
       (world_with ''abc'' ''en'' ''hello'' SUCCESSFUL_TRANSCRIPT_TTL_SECONDS) ''abc'' ''en'')
     = Some ''hello''
   \<and> getTranscriptWithAutoDetection up_hello ''abc''
       (world_with ''abc'' ''en'' ''hello'' SUCCESSFUL_TRANSCRIPT_TTL_SECONDS)
     = (Inr ''hello'', world_with ''abc'' ''en'' ''hello'' SUCCESSFUL_TRANSCRIPT_TTL_SECONDS)
   \<and> fst (getTranscriptWithAutoDetection up_hello ''abc'' world0)
     = Inr ''[Auto-detected language: en]\<newline>\<newline>hello''"
proof -
  let ?w = "world_with ''abc'' ''en'' ''hello'' SUCCESSFUL_TRANSCRIPT_TTL_SECONDS"
  have c: "cached_transcript (getCachedTranscript ?w ''abc'' ''en'') = Some ''hello''"
    by (simp add: getCachedTranscript_def cached_transcript_def world_with_def world0_def)
  have hit: "getTranscriptWithAutoDetection up_hello ''abc'' ?w = (Inr ''hello'', ?w)"
    using c by (simp add: getTranscriptWithAutoDetection_def languagesToTry_def)
  have c0: "cached_transcript (getCachedTranscript world0 ''abc'' ''en'') = None"
    by (simp add: getCachedTranscript_def cached_transcript_def world0_def)
  have f: "fetchTranscriptFromYouTube up_hello ''abc'' ''en'' world0
             = (Inr ''hello'', world0\<lparr>calls := [(''abc'', ''en'')]\<rparr>)"
    using fetch_success[of up_hello world0 "''abc''" "''en''" "[''hello'']"]
    by (simp add: world0_def up_hello_def sanitize_hello)
  have miss: "fst (getTranscriptWithAutoDetection up_hello ''abc'' world0)
     = Inr ''[Auto-detected language: en]\<newline>\<newline>hello''"
    using c0 f by (simp add: getTranscriptWithAutoDetection_def languagesToTry_def)
  show ?thesis using c hit miss by blast
qed

lemma language_related_cached:
  "isLanguageRelatedError (Error ''Error: No transcript available for this video.'')"
  by code_simp

lemma not_language_related_busy:
  "\<not> isLanguageRelatedError
       (Error ''Error: Service temporarily busy, try again in a few minutes.'')"
  by code_simp

lemma handle_busy:
  "handleYouTubeErrors
     (Some (Error ''Error: Service temporarily busy, try again in a few minutes.''))
   = ''An unexpected error occurred while fetching the transcript.''"
  by code_simp

text \<open>
  C3. With a stored error for Turkish in the cache, a request for Turkish does not raise
  that error. When its message is language-related, the English fallback runs: the caption
  source is called for English and the request succeeds. When it is not, the error raised
  carries another message, and the stored error is overwritten with that one.
\<close>

theorem cached_error_not_reraised:
  "cached_error (getCachedTranscript
       (world_with ''abc'' ''tr'' ''Error: No transcript available for this video.''
          ERROR_RESPONSE_TTL_SECONDS) ''abc'' ''tr'')
     = Some ''Error: No transcript available for this video.''
   \<and> fst (getTranscriptWithFallback up_hello ''abc'' ''tr''
       (world_with ''abc'' ''tr'' ''Error: No transcript available for this video.''
          ERROR_RESPONSE_TTL_SECONDS))
     = Inr (english_note ''tr'' @ ''hello'')
   \<and> calls (snd (getTranscriptWithFallback up_hello ''abc'' ''tr''
       (world_with ''abc'' ''tr'' ''Error: No transcript available for this video.''
          ERROR_RESPONSE_TTL_SECONDS)))
     = [(''abc'', ''en'')]
   \<and> cached_error (getCachedTranscript
       (world_with ''abc'' ''tr''
          ''Error: Service temporarily busy, try again in a few minutes.''
          ERROR_RESPONSE_TTL_SECONDS) ''abc'' ''tr'')
     = Some ''Error: Service temporarily busy, try again in a few minutes.''
   \<and> fst (getTranscriptWithFallback up_hello ''abc'' ''tr''
       (world_with ''abc'' ''tr''
          ''Error: Service temporarily busy, try again in a few minutes.''
          ERROR_RESPONSE_TTL_SECONDS))
     = Inl (Error ''An unexpected error occurred while fetching the transcript.'')
   \<and> puts (snd (getTranscriptWithFallback up_hello ''abc'' ''tr''
       (world_with ''abc'' ''tr''
          ''Error: Service temporarily busy, try again in a few minutes.''
          ERROR_RESPONSE_TTL_SECONDS)))
     = [(getTranscriptCacheKey ''abc'' ''tr'',
         ''Error: An unexpected error occurred while fetching the transcript.'',
         ERROR_RESPONSE_TTL_SECONDS)]"
proof -
  let ?d1 = "''Error: No transcript available for this video.''"
  let ?d2 = "''Error: Service temporarily busy, try again in a few minutes.''"
  let ?w1 = "world_with ''abc'' ''tr'' ?d1 ERROR_RESPONSE_TTL_SECONDS"
  let ?w2 = "world_with ''abc'' ''tr'' ?d2 ERROR_RESPONSE_TTL_SECONDS"
  have g1: "getCachedTranscript ?w1 ''abc'' ''tr'' = Some ?d1"
    by (simp add: getCachedTranscript_def world_with_def world0_def)
  have g2: "getCachedTranscript ?w2 ''abc'' ''tr'' = Some ?d2"
    by (simp add: getCachedTranscript_def world_with_def world0_def)
  have t1: "fallback_try up_hello ''abc'' ''tr'' ?w1 = (Inl (Error ?d1), ?w1)"
    by (simp add: fallback_try_def g1)
  have t2: "fallback_try up_hello ''abc'' ''tr'' ?w2 = (Inl (Error ?d2), ?w2)"
    by (simp add: fallback_try_def g2)
  have en: "cached_transcript (getCachedTranscript ?w1 ''abc'' ''en'') = None"
    by (simp add: getCachedTranscript_def cached_transcript_def world_with_def world0_def
          getTranscriptCacheKey_def)
  have f: "fetchTranscriptFromYouTube up_hello ''abc'' ''en'' ?w1
             = (Inr ''hello'', ?w1\<lparr>calls := [(''abc'', ''en'')]\<rparr>)"
    using fetch_success[of up_hello ?w1 "''abc''" "''en''" "[''hello'']"]
    by (simp add: world_with_def world0_def up_hello_def sanitize_hello)
  have e: "english_try up_hello ''abc'' ''tr'' ?w1
             = (Inr (english_note ''tr'' @ ''hello''),
                if cache_bound (?w1\<lparr>calls := [(''abc'', ''en'')]\<rparr>)
                then setCachedTranscript (?w1\<lparr>calls := [(''abc'', ''en'')]\<rparr>)
                       ''abc'' ''en'' ''hello'' False
                else ?w1\<lparr>calls := [(''abc'', ''en'')]\<rparr>)"
    using en f by (simp add: english_try_def)
  have r1: "getTranscriptWithFallback up_hello ''abc'' ''tr'' ?w1
             = (Inr (english_note ''tr'' @ ''hello''),
                if cache_bound (?w1\<lparr>calls := [(''abc'', ''en'')]\<rparr>)
                then setCachedTranscript (?w1\<lparr>calls := [(''abc'', ''en'')]\<rparr>)
                       ''abc'' ''en'' ''hello'' False
                else ?w1\<lparr>calls := [(''abc'', ''en'')]\<rparr>)"
    using t1 e language_related_cached by (simp add: getTranscriptWithFallback_def)
  have a1: "cached_error (getCachedTranscript ?w1 ''abc'' ''tr'') = Some ?d1"
    by (simp add: g1 cached_error_def)
  have a2: "fst (getTranscriptWithFallback up_hello ''abc'' ''tr'' ?w1)
              = Inr (english_note ''tr'' @ ''hello'')"
    by (simp add: r1)
  have a3: "calls (snd (getTranscriptWithFallback up_hello ''abc'' ''tr'' ?w1))
              = [(''abc'', ''en'')]"
    by (simp add: r1 set_calls)
  have r2: "getTranscriptWithFallback up_hello ''abc'' ''tr'' ?w2
             = (Inl (Error ''An unexpected error occurred while fetching the transcript.''),
                if cache_bound ?w2
                then setCachedTranscript ?w2 ''abc'' ''tr''
                       (''Error: '' @ ''An unexpected error occurred while fetching the transcript.'')
                       True
                else ?w2)"
    using t2 not_language_related_busy handle_busy by (simp add: getTranscriptWithFallback_def)
  have a4: "cached_error (getCachedTranscript ?w2 ''abc'' ''tr'') = Some ?d2"
    by (simp add: g2 cached_error_def)
  have a5: "fst (getTranscriptWithFallback up_hello ''abc'' ''tr'' ?w2)
              = Inl (Error ''An unexpected error occurred while fetching the transcript.'')"
    by (simp add: r2)
  have a6: "puts (snd (getTranscriptWithFallback up_hello ''abc'' ''tr'' ?w2))
     = [(getTranscriptCacheKey ''abc'' ''tr'',
         ''Error: An unexpected error occurred while fetching the transcript.'',
         ERROR_RESPONSE_TTL_SECONDS)]"
    by (subst r2) (simp add: setCachedTranscript_def world_with_def world0_def Let_def)
  show ?thesis using a1 a2 a3 a4 a5 a6 by blast
qed

section \<open>Errors and transcripts in the cache\<close>






























end
